theory Spec2Isabelle
  imports Main "HOL-Library.Word"
begin

section \<open>Values shared by all operations\<close>

text \<open>
  A Go \<open>error\<close> value is modelled by its message, which is what \<open>%s\<close> prints.
  A function result is \<open>Return v\<close>, or ends the process: \<open>Exit n\<close> for \<open>os.Exit(n)\<close>
  (\<open>log.Fatalf\<close> is a log line followed by \<open>os.Exit(1)\<close>), \<open>Panic\<close> for a run-time panic.
\<close>

datatype error = Err string

fun Error_s :: "error \<Rightarrow> string" where
  "Error_s (Err m) = m"

datatype panic = IndexOutOfRange nat nat

datatype 'a ret = Return 'a | Exit nat | Panic panic

section \<open>Data of go-git and of the GraphQL client\<close>

datatype StatusCode =
  Unmodified | Untracked | Modified | Added | Deleted | Renamed | Copied | UpdatedButUnmerged

record FileStatus =
  Staging :: StatusCode
  Worktree :: StatusCode
  Extra :: string

text \<open>
  \<open>git.Status\<close> is a Go map from path to file status. The list gives its entries in the
  order in which the \<open>range\<close> loop of one run visits them; a map has each key once.
\<close>

type_synonym Status = "(string \<times> FileStatus) list"

record Reference =
  ref_Name :: string
  ref_Hash :: string

record GitWorktree =
  wt_Status :: "error + Status"

text \<open>
  Fetching from a remote either fails (also with "already up-to-date") and leaves the
  local references as they were, or succeeds and yields the refreshed reference store.
\<close>

record GitRemote =
  remote_Fetch :: "error + (string \<Rightarrow> error + Reference)"

record GitRepository =
  repo_Worktree :: "error + GitWorktree"
  repo_Head :: "error + Reference"
  repo_Reference :: "string \<Rightarrow> error + Reference"
  repo_Remote :: "string \<Rightarrow> error + GitRemote"

record Opts =
  Repository :: string
  BranchName :: string
  Message :: string
  PullRequest :: bool

record FileAddition =
  Path :: string
  Contents :: string

record CommittableBranch =
  RepositoryNameWithOwner :: "string option"
  cb_BranchName :: "string option"

record CreateCommitOnBranchInput =
  Branch :: CommittableBranch
  Headline :: string
  Additions :: "FileAddition list"
  ExpectedHeadOid :: string

record CreateRefInput =
  ref_RepositoryID :: string
  Name :: string
  Oid :: string

record CreatePullRequestInput =
  pr_RepositoryID :: string
  BaseRefName :: string
  HeadRefName :: string
  Title :: string

text \<open>The five GraphQL operations the program sends, each with what it carries.\<close>

datatype Call =
  MainOidQuery string string
  | RefQuery string string string
  | CreateRefMutation CreateRefInput
  | CreateCommitOnBranchMutation CreateCommitOnBranchInput
  | CreatePullRequestMutation CreatePullRequestInput

text \<open>
  What a run does to the outside, in order: a log line, a GraphQL round trip, a git fetch
  from the named remote.
\<close>

datatype Event = Log string | Remote Call | Fetch string

type_synonym 'a io = "Event list \<times> 'a ret"

text \<open>
  The service behind the client: its reply to each operation. Every operation is sent at
  most once in a run, in a fixed order, so a reply per request describes one run of it.
\<close>

record GitHub =
  QueryMainOid :: "string \<Rightarrow> string \<Rightarrow> error + (string \<times> string)"
  QueryRef :: "string \<Rightarrow> string \<Rightarrow> string \<Rightarrow> error + string"
  MutateCreateRef :: "CreateRefInput \<Rightarrow> error + string"
  MutateCreateCommitOnBranch :: "CreateCommitOnBranchInput \<Rightarrow> error + string"
  MutateCreatePullRequest :: "CreatePullRequestInput \<Rightarrow> error + string"

datatype ParseResult = ParseOk Opts | ParseHelp | ParseFlagError | ParseOtherError error

text \<open>
  Everything outside the program: the result of parsing the command line, of opening the
  repository in the current directory, the files (\<open>os.ReadFile\<close> returns the bytes, or an
  error and no data for a file it cannot read) and the service.
\<close>

record World =
  Parse :: ParseResult
  PlainOpen :: "error + GitRepository"
  ReadFile :: "string \<Rightarrow> error + 8 word list"
  github :: GitHub

section \<open>Sequencing\<close>

fun andThen :: "'a io \<Rightarrow> ('a \<Rightarrow> 'b io) \<Rightarrow> 'b io" where
  "andThen (ev, Return x) f = (case f x of (ev', r) \<Rightarrow> (ev @ ev', r))"
| "andThen (ev, Exit n) f = (ev, Exit n)"
| "andThen (ev, Panic p) f = (ev, Panic p)"

definition printf :: "string \<Rightarrow> unit io" where
  "printf m = ([Log m], Return ())"

definition fatalf :: "string \<Rightarrow> 'a io" where
  "fatalf m = ([Log m], Exit 1)"

text \<open>\<open>if err != nil { log.Fatalf(prefix + "%s", err) }\<close>\<close>

fun check :: "error option \<Rightarrow> string \<Rightarrow> unit io" where
  "check None prefix = ([], Return ())"
| "check (Some err) prefix = fatalf (prefix @ Error_s err)"

text \<open>Indexing a slice: Go panics out of range.\<close>

definition index :: "'a list \<Rightarrow> nat \<Rightarrow> 'a io" where
  "index xs i = (if i < length xs then ([], Return (xs ! i)) else ([], Panic (IndexOutOfRange i (length xs))))"

text \<open>\<open>strings.Split(s, sep)\<close> for a separator of one character.\<close>

fun Split :: "string \<Rightarrow> char \<Rightarrow> string list" where
  "Split [] sep = [[]]"
| "Split (c # cs) sep =
     (if c = sep then [] # Split cs sep
      else (case Split cs sep of [] \<Rightarrow> [[c]] | x # xs \<Rightarrow> (c # x) # xs))"

section \<open>Base64, standard alphabet with padding\<close>

definition encodeStd :: string where
  "encodeStd = ''ABCDEFGHIJKLMNOPQRSTUVWXYZabcdefghijklmnopqrstuvwxyz0123456789+/''"

fun EncodeToString :: "8 word list \<Rightarrow> string" where
  "EncodeToString (a # b # c # rest) =
     (let val = unat a * 65536 + unat b * 256 + unat c in
      [encodeStd ! (val div 262144 mod 64), encodeStd ! (val div 4096 mod 64),
       encodeStd ! (val div 64 mod 64), encodeStd ! (val mod 64)] @ EncodeToString rest)"
| "EncodeToString [a, b] =
     (let val = unat a * 65536 + unat b * 256 in
      [encodeStd ! (val div 262144 mod 64), encodeStd ! (val div 4096 mod 64),
       encodeStd ! (val div 64 mod 64), CHR ''=''])"
| "EncodeToString [a] =
     (let val = unat a * 65536 in
      [encodeStd ! (val div 262144 mod 64), encodeStd ! (val div 4096 mod 64),
       CHR ''='', CHR ''=''])"
| "EncodeToString [] = []"

section \<open>main.go\<close>

definition openRepository :: "World \<Rightarrow> error + (GitRepository \<times> Status)" where
  "openRepository w =
     (case PlainOpen w of
        Inl err \<Rightarrow> Inl err
      | Inr repo \<Rightarrow>
          (case repo_Worktree repo of
             Inl err \<Rightarrow> Inl err
           | Inr worktree \<Rightarrow>
               (case wt_Status worktree of
                  Inl err \<Rightarrow> Inl err
                | Inr status \<Rightarrow> Inr (repo, status))))"

definition fetchRemote :: "GitRepository \<Rightarrow> (GitRepository \<times> error option) io" where
  "fetchRemote repo =
     (case repo_Remote repo ''origin'' of
        Inl err \<Rightarrow> ([], Return (repo, Some err))
      | Inr remote \<Rightarrow>
          (case remote_Fetch remote of
             Inl err \<Rightarrow> ([Fetch ''origin''], Return (repo, Some err))
           | Inr refs \<Rightarrow> ([Fetch ''origin''], Return (repo\<lparr>repo_Reference := refs\<rparr>, None))))"

text \<open>The condition under which the loop of \<open>addChanges\<close> takes a path.\<close>

definition qualifies :: "FileStatus \<Rightarrow> bool" where
  "qualifies status \<longleftrightarrow>
     Worktree status = Modified \<or> Staging status = Added \<or> Staging status = Modified"

text \<open>
  The loop of \<open>addChanges\<close>: the error of \<open>os.ReadFile\<close> is dropped (\<open>b, _ :=\<close>), so a file
  that cannot be read contributes the nil slice.
\<close>

fun addChanges_loop ::
  "(string \<Rightarrow> error + 8 word list) \<Rightarrow> Status \<Rightarrow> FileAddition list \<Rightarrow> Event list \<times> FileAddition list"
where
  "addChanges_loop rf [] changes = ([], changes)"
| "addChanges_loop rf ((name, status) # rest) changes =
     (if qualifies status then
        (let b = (case rf name of Inl err \<Rightarrow> [] | Inr data \<Rightarrow> data);
             content = EncodeToString b
         in (case addChanges_loop rf rest (changes @ [\<lparr>Path = name, Contents = content\<rparr>]) of
               (ev, out) \<Rightarrow> (Log (''adding '' @ name) # ev, out)))
      else addChanges_loop rf rest changes)"

definition addChanges :: "(string \<Rightarrow> error + 8 word list) \<Rightarrow> Status \<Rightarrow> (FileAddition list) io" where
  "addChanges rf status =
     (case addChanges_loop rf status [] of
        (ev, changes) \<Rightarrow>
          if length changes = 0 then (ev @ [Log ''no changes to commit, exiting''], Exit 0)
          else (ev, Return changes))"

section \<open>gh-graphql.go\<close>

definition DoCommit :: "GitHub \<Rightarrow> FileAddition list \<Rightarrow> Opts \<Rightarrow> Reference \<Rightarrow> (error option) io" where
  "DoCommit client changes opts revision =
     (let input = \<lparr>Branch = \<lparr>RepositoryNameWithOwner = Some (Repository opts),
                              cb_BranchName = Some (BranchName opts)\<rparr>,
                   Headline = Message opts,
                   Additions = changes,
                   ExpectedHeadOid = ref_Hash revision\<rparr>
      in (case MutateCreateCommitOnBranch client input of
            Inl err \<Rightarrow> ([Remote (CreateCommitOnBranchMutation input)], Return (Some err))
          | Inr url \<Rightarrow>
              ([Remote (CreateCommitOnBranchMutation input), Log (''mutation complete: '' @ url)],
               Return None)))"

definition CheckBranchExists :: "GitHub \<Rightarrow> Opts \<Rightarrow> (bool \<times> error option) io" where
  "CheckBranchExists client opts =
     andThen (index (Split (Repository opts) CHR ''/'') 0) (\<lambda>owner.
     andThen (index (Split (Repository opts) CHR ''/'') 1) (\<lambda>name.
       (let branchName = ''refs/heads/'' @ BranchName opts in
        (case QueryRef client owner name branchName of
           Inl err \<Rightarrow> ([Remote (RefQuery owner name branchName)], Return (False, Some err))
         | Inr ref_name \<Rightarrow>
             if ref_name \<noteq> '''' then
               ([Remote (RefQuery owner name branchName), Log (''branch found: '' @ ref_name)],
                Return (True, None))
             else
               ([Remote (RefQuery owner name branchName),
                 Log (''a branch with the name '' @ BranchName opts @ '' was not found'')],
                Return (False, None))))))"

definition getMainOid :: "GitHub \<Rightarrow> Opts \<Rightarrow> (string \<times> string \<times> error option) io" where
  "getMainOid client opts =
     andThen (index (Split (Repository opts) CHR ''/'') 0) (\<lambda>owner.
     andThen (index (Split (Repository opts) CHR ''/'') 1) (\<lambda>name.
       (case QueryMainOid client owner name of
          Inl err \<Rightarrow> ([Remote (MainOidQuery owner name)], Return ('''', '''', Some err))
        | Inr (oid, repoId) \<Rightarrow> ([Remote (MainOidQuery owner name)], Return (oid, repoId, None)))))"

definition CreateBranch :: "GitHub \<Rightarrow> Opts \<Rightarrow> string \<Rightarrow> string \<Rightarrow> (error option) io" where
  "CreateBranch client opts repoId oid =
     (let input = \<lparr>ref_RepositoryID = repoId,
                   Name = ''refs/heads/'' @ BranchName opts,
                   Oid = oid\<rparr>
      in (case MutateCreateRef client input of
            Inl err \<Rightarrow> ([Remote (CreateRefMutation input)], Return (Some err))
          | Inr mid \<Rightarrow>
              ([Remote (CreateRefMutation input), Log (BranchName opts @ '' branch created'')],
               Return None)))"

definition CreatePullRequest :: "GitHub \<Rightarrow> Opts \<Rightarrow> string \<Rightarrow> (error option) io" where
  "CreatePullRequest client opts repoId =
     (let input = \<lparr>pr_RepositoryID = repoId,
                   BaseRefName = ''main'',
                   HeadRefName = BranchName opts,
                   Title = Message opts\<rparr>
      in (case MutateCreatePullRequest client input of
            Inl err \<Rightarrow> ([Remote (CreatePullRequestMutation input)], Return (Some err))
          | Inr pid \<Rightarrow>
              ([Remote (CreatePullRequestMutation input),
                Log (''pull request created '' @ BranchName opts)],
               Return None)))"

section \<open>The orchestration\<close>

text \<open>
  The two halves of the \<open>if !branchExists\<close> statement of \<open>main\<close>, which give the
  revision whose hash the commit expects at the head of the branch: after creating the
  branch, the HEAD of the local repository; for a branch that exists, the local tracking
  reference after an attempt to fetch.
\<close>

definition main_revision ::
  "GitHub \<Rightarrow> Opts \<Rightarrow> GitRepository \<Rightarrow> string \<Rightarrow> string \<Rightarrow> bool \<Rightarrow> Reference io"
where
  "main_revision client opts repo repoId oid branchExists =
     (if \<not> branchExists then
        andThen (CreateBranch client opts repoId oid) (\<lambda>err.
        andThen (check err ''unable to create branch: '') (\<lambda>_.
          (case repo_Head repo of
             Inl err \<Rightarrow> fatalf (''unable to find HEAD revision: '' @ Error_s err)
           | Inr revision \<Rightarrow> ([], Return revision))))
      else
        andThen (fetchRemote repo) (\<lambda>(repo, err).
        andThen (case err of
                   Some e \<Rightarrow> printf (''unable to fetch remote: '' @ Error_s e)
                 | None \<Rightarrow> ([], Return ())) (\<lambda>_.
          (let refName = ''refs/remotes/origin/'' @ BranchName opts in
           (case repo_Reference repo refName of
              Inl err \<Rightarrow>
                fatalf (''unable to find HEAD for branch '' @ BranchName opts @ '': ''
                        @ Error_s err)
            | Inr revision \<Rightarrow> ([], Return revision))))))"

text \<open>The end of \<open>main\<close>: the commit, then the pull request when it is asked for.\<close>

definition main_commit ::
  "GitHub \<Rightarrow> Opts \<Rightarrow> FileAddition list \<Rightarrow> string \<Rightarrow> Reference \<Rightarrow> unit io"
where
  "main_commit client opts changes repoId revision =
     andThen (DoCommit client changes opts revision) (\<lambda>err.
     andThen (check err ''unable to commit: '') (\<lambda>_.
       (if PullRequest opts then
          andThen (CreatePullRequest client opts repoId) (\<lambda>err.
            check err ''unable to create PR: '')
        else ([], Return ()))))"

text \<open>
  \<open>main\<close> of main.go, statement by statement. The client is built from the environment's
  token without any check, so it is the service itself here.
\<close>

definition main :: "World \<Rightarrow> unit io" where
  "main w =
     (case Parse w of
        ParseHelp \<Rightarrow> ([], Exit 0)
      | ParseFlagError \<Rightarrow> ([], Exit 1)
      | ParseOtherError err \<Rightarrow> fatalf (Error_s err)
      | ParseOk opts \<Rightarrow>
          andThen (case openRepository w of
                     Inl err \<Rightarrow> fatalf (''unable to open repository: '' @ Error_s err)
                   | Inr rs \<Rightarrow> ([], Return rs)) (\<lambda>(repo, status).
          andThen (addChanges (ReadFile w) status) (\<lambda>changes.
          andThen (getMainOid (github w) opts) (\<lambda>(oid, repoId, err).
          andThen (check err ''unable to lookup oid: '') (\<lambda>_.
          andThen (CheckBranchExists (github w) opts) (\<lambda>(branchExists, err).
          andThen (check err ''unable to lookup branch: '') (\<lambda>_.
          andThen (main_revision (github w) opts repo repoId oid branchExists) (\<lambda>revision.
            main_commit (github w) opts changes repoId revision))))))))"

section \<open>Reading a trace\<close>

text \<open>The GraphQL round trips of a trace, and the inputs of each kind of mutation in it.\<close>

fun calls :: "Event list \<Rightarrow> Call list" where
  "calls [] = []"
| "calls (Remote c # ev) = c # calls ev"
| "calls (e # ev) = calls ev"

fun creates :: "Event list \<Rightarrow> CreateRefInput list" where
  "creates [] = []"
| "creates (Remote (CreateRefMutation i) # ev) = i # creates ev"
| "creates (e # ev) = creates ev"

fun commits :: "Event list \<Rightarrow> CreateCommitOnBranchInput list" where
  "commits [] = []"
| "commits (Remote (CreateCommitOnBranchMutation i) # ev) = i # commits ev"
| "commits (e # ev) = commits ev"

fun pulls :: "Event list \<Rightarrow> CreatePullRequestInput list" where
  "pulls [] = []"
| "pulls (Remote (CreatePullRequestMutation i) # ev) = i # pulls ev"
| "pulls (e # ev) = pulls ev"

text \<open>The changes a call of \<open>addChanges\<close> hands back; none when it ends the process.\<close>

fun collected :: "(FileAddition list) io \<Rightarrow> FileAddition list" where
  "collected (ev, Return changes) = changes"
| "collected (ev, r) = []"

section \<open>Example runs\<close>

definition ex_opts :: "string \<Rightarrow> bool \<Rightarrow> Opts" where
  "ex_opts repository pr =
     \<lparr>Repository = repository, BranchName = ''feature-x'', Message = ''update docs'',
      PullRequest = pr\<rparr>"

text \<open>
  A service whose default branch is at \<open>2222\<close>, which reports the given name for the
  branch asked about, and accepts a commit only on the head it is given.
\<close>

definition ex_github :: "string \<Rightarrow> string \<Rightarrow> GitHub" where
  "ex_github ref_name tip =
     \<lparr>QueryMainOid = (\<lambda>owner name. Inr (''2222'', ''R_1'')),
      QueryRef = (\<lambda>owner name qualified. Inr ref_name),
      MutateCreateRef = (\<lambda>i. Inr []),
      MutateCreateCommitOnBranch =
        (\<lambda>i. if ExpectedHeadOid i = tip then Inr ''https://example.org/commit/5555''
              else Inl (Err ''expected head oid does not match'')),
      MutateCreatePullRequest = (\<lambda>i. Inr ''PR_1'')\<rparr>"

text \<open>
  A checkout whose HEAD is at the given hash, whose tracking reference of \<open>feature-x\<close> is
  at \<open>4444\<close>, and whose fetch reports that there is nothing new.
\<close>

definition ex_repo :: "Status \<Rightarrow> string \<Rightarrow> GitRepository" where
  "ex_repo status head_hash =
     \<lparr>repo_Worktree = Inr \<lparr>wt_Status = Inr status\<rparr>,
      repo_Head = Inr \<lparr>ref_Name = ''refs/heads/main'', ref_Hash = head_hash\<rparr>,
      repo_Reference =
        (\<lambda>n. if n = ''refs/remotes/origin/feature-x'' then Inr \<lparr>ref_Name = n, ref_Hash = ''4444''\<rparr>
             else Inl (Err ''reference not found'')),
      repo_Remote = (\<lambda>n. Inr \<lparr>remote_Fetch = Inl (Err ''already up-to-date'')\<rparr>)\<rparr>"

definition ex_files :: "string \<Rightarrow> error + 8 word list" where
  "ex_files p =
     (if p = ''a.txt'' then Inr [0x68, 0x69]
      else Inl (Err ''open: no such file or directory''))"

definition ex_world :: "Opts \<Rightarrow> Status \<Rightarrow> string \<Rightarrow> GitHub \<Rightarrow> World" where
  "ex_world opts status head_hash service =
     \<lparr>Parse = ParseOk opts, PlainOpen = Inr (ex_repo status head_hash),
      ReadFile = ex_files, github = service\<rparr>"

text \<open>The same service, refusing to create a ref.\<close>

definition ex_github_denied :: GitHub where
  "ex_github_denied =
     (ex_github [] ''2222'')\<lparr>MutateCreateRef := (\<lambda>i. Inl (Err ''Resource not accessible''))\<rparr>"

text \<open>A checkout like \<open>ex_repo\<close> whose tracking reference of \<open>feature-x\<close> is missing.\<close>

definition ex_repo_untracked :: "Status \<Rightarrow> string \<Rightarrow> GitRepository" where
  "ex_repo_untracked status head_hash =
     (ex_repo status head_hash)\<lparr>repo_Reference := (\<lambda>n. Inl (Err ''reference not found''))\<rparr>"

definition ex_st :: "StatusCode \<Rightarrow> StatusCode \<Rightarrow> FileStatus" where
  "ex_st staging worktree = \<lparr>Staging = staging, Worktree = worktree, Extra = []\<rparr>"

section \<open>Facts about traces and sequencing\<close>

lemma calls_append [simp]: "calls (a @ b) = calls a @ calls b"
  by (induction a rule: calls.induct) simp_all

lemma creates_append [simp]: "creates (a @ b) = creates a @ creates b"
  by (induction a rule: creates.induct) simp_all

lemma commits_append [simp]: "commits (a @ b) = commits a @ commits b"
  by (induction a rule: commits.induct) simp_all

lemma pulls_append [simp]: "pulls (a @ b) = pulls a @ pulls b"
  by (induction a rule: pulls.induct) simp_all

lemma andThen_eq:
  "andThen m f =
     (case snd m of
        Return x \<Rightarrow> (fst m @ fst (f x), snd (f x))
      | Exit n \<Rightarrow> (fst m, Exit n)
      | Panic p \<Rightarrow> (fst m, Panic p))"
  by (cases m; cases "snd m") (auto split: prod.splits)

section \<open>The loop of addChanges\<close>

lemma addChanges_loop_eq:
  "addChanges_loop rf status acc =
     (map (\<lambda>(n, s). Log (''adding '' @ n)) (filter (\<lambda>(n, s). qualifies s) status),
      acc @ map (\<lambda>(n, s). \<lparr>Path = n, Contents = EncodeToString (case rf n of Inl err \<Rightarrow> [] | Inr data \<Rightarrow> data)\<rparr>)
                (filter (\<lambda>(n, s). qualifies s) status))"
  by (induction status arbitrary: acc) (auto simp: Let_def)

lemma collected_addChanges:
  "collected (addChanges rf status) =
     map (\<lambda>(n, s). \<lparr>Path = n, Contents = EncodeToString (case rf n of Inl err \<Rightarrow> [] | Inr data \<Rightarrow> data)\<rparr>)
       (filter (\<lambda>(n, s). qualifies s) status)"
  by (simp add: addChanges_def addChanges_loop_eq)

lemma addChanges_none:
  assumes "filter (\<lambda>(n, s). qualifies s) status = []"
  shows "addChanges rf status = ([Log ''no changes to commit, exiting''], Exit 0)"
  unfolding addChanges_def addChanges_loop_eq using assms by simp

lemma addChanges_some:
  assumes "filter (\<lambda>(n, s). qualifies s) status \<noteq> []"
  shows "addChanges rf status =
     (map (\<lambda>(n, s). Log (''adding '' @ n)) (filter (\<lambda>(n, s). qualifies s) status),
      Return (collected (addChanges rf status)))"
  unfolding addChanges_def addChanges_loop_eq using assms by simp

lemma filter_key_none: "p \<notin> fst ` set xs \<Longrightarrow> filter (\<lambda>x. fst x = p) xs = []"
  by (induction xs) auto

lemma filter_key_distinct:
  "distinct (map fst xs) \<Longrightarrow> (p, s) \<in> set xs \<Longrightarrow> filter (\<lambda>x. fst x = p) xs = [(p, s)]"
proof (induction xs)
  case Nil
  then show ?case by simp
next
  case (Cons x xs)
  show ?case
  proof (cases "fst x = p")
    case True
    from Cons.prems(1) True have "p \<notin> fst ` set xs" by simp
    then have none: "filter (\<lambda>x. fst x = p) xs = []" by (rule filter_key_none)
    from \<open>p \<notin> fst ` set xs\<close> have "(p, s) \<notin> set xs" by force
    with Cons.prems(2) have "x = (p, s)" by simp
    with none show ?thesis by simp
  next
    case False
    then have "x \<noteq> (p, s)" by auto
    with Cons.prems have "distinct (map fst xs)" and "(p, s) \<in> set xs" by simp_all
    then have "filter (\<lambda>x. fst x = p) xs = [(p, s)]" by (rule Cons.IH)
    with False show ?thesis by simp
  qed
qed

lemma map_Path_collected:
  "map Path (collected (addChanges rf status)) = map fst (filter (\<lambda>(n, s). qualifies s) status)"
  unfolding collected_addChanges by (induction status) auto

lemma mem_filter_keys:
  "p \<in> set (map fst (filter (\<lambda>(n, s). qualifies s) status)) \<longleftrightarrow> (\<exists>s. (p, s) \<in> set status \<and> qualifies s)"
  by (induction status) auto

lemma paths_collected:
  "p \<in> Path ` set (collected (addChanges rf status)) \<longleftrightarrow> (\<exists>s. (p, s) \<in> set status \<and> qualifies s)"
proof -
  have "p \<in> Path ` set (collected (addChanges rf status))
          \<longleftrightarrow> p \<in> set (map Path (collected (addChanges rf status)))"
    by simp
  also have "\<dots> \<longleftrightarrow> (\<exists>s. (p, s) \<in> set status \<and> qualifies s)"
    unfolding map_Path_collected by (rule mem_filter_keys)
  finally show ?thesis .
qed

section \<open>Splitting the repository identifier\<close>

lemma Split_no_sep: "sep \<notin> set s \<Longrightarrow> Split s sep = [s]"
  by (induction s) auto

lemma Split_at_sep: "sep \<notin> set a \<Longrightarrow> Split (a @ sep # b) sep = a # Split b sep"
  by (induction a) auto

lemma Split_once:
  assumes "sep \<notin> set a" and "sep \<notin> set b"
  shows "Split (a @ sep # b) sep = [a, b]"
  using assms by (simp add: Split_at_sep Split_no_sep)

lemma getMainOid_no_sep:
  assumes "CHR ''/'' \<notin> set (Repository opts)"
  shows "getMainOid client opts = ([], Panic (IndexOutOfRange 1 1))"
  by (simp add: getMainOid_def index_def Split_no_sep [OF assms])

lemma CheckBranchExists_no_sep:
  assumes "CHR ''/'' \<notin> set (Repository opts)"
  shows "CheckBranchExists client opts = ([], Panic (IndexOutOfRange 1 1))"
  by (simp add: CheckBranchExists_def index_def Split_no_sep [OF assms])

lemma getMainOid_split:
  assumes "Split (Repository opts) CHR ''/'' = owner # name # rest"
  shows "getMainOid client opts =
     ([Remote (MainOidQuery owner name)],
      Return (case QueryMainOid client owner name of
                Inl err \<Rightarrow> ([], [], Some err)
              | Inr (oid, repoId) \<Rightarrow> (oid, repoId, None)))"
  by (simp add: getMainOid_def index_def assms split: sum.splits prod.splits)

lemma CheckBranchExists_split:
  assumes "Split (Repository opts) CHR ''/'' = owner # name # rest"
  shows "CheckBranchExists client opts =
     (case QueryRef client owner name (''refs/heads/'' @ BranchName opts) of
        Inl err \<Rightarrow>
          ([Remote (RefQuery owner name (''refs/heads/'' @ BranchName opts))], Return (False, Some err))
      | Inr ref_name \<Rightarrow>
          ([Remote (RefQuery owner name (''refs/heads/'' @ BranchName opts)),
            Log (if ref_name \<noteq> [] then ''branch found: '' @ ref_name
                 else ''a branch with the name '' @ BranchName opts @ '' was not found'')],
           Return (ref_name \<noteq> [], None)))"
  by (simp add: CheckBranchExists_def index_def assms Let_def split: sum.splits)

lemma Split_short:
  assumes "\<nexists>owner name rest. Split s sep = owner # name # rest"
  shows "\<exists>x. Split s sep = [x]"
proof (cases "Split s sep")
  case Nil
  then show ?thesis by (cases s) (auto split: if_splits list.splits)
next
  case (Cons x xs)
  with assms show ?thesis by (cases xs) auto
qed

lemma CheckBranchExists_short:
  assumes "\<nexists>owner name rest. Split (Repository opts) CHR ''/'' = owner # name # rest"
  shows "CheckBranchExists client opts = ([], Panic (IndexOutOfRange 1 1))"
proof -
  from Split_short [OF assms] obtain x where "Split (Repository opts) CHR ''/'' = [x]" ..
  then show ?thesis by (simp add: CheckBranchExists_def index_def)
qed

lemma getMainOid_short:
  assumes "\<nexists>owner name rest. Split (Repository opts) CHR ''/'' = owner # name # rest"
  shows "getMainOid client opts = ([], Panic (IndexOutOfRange 1 1))"
proof -
  from Split_short [OF assms] obtain x where "Split (Repository opts) CHR ''/'' = [x]" ..
  then show ?thesis by (simp add: getMainOid_def index_def)
qed

section \<open>The stages of main\<close>

lemma only_logs:
  assumes "\<forall>e \<in> set ev. \<exists>m. e = Log m"
  shows "calls ev = []" and "creates ev = []" and "commits ev = []" and "pulls ev = []"
    and "Fetch r \<notin> set ev"
  using assms by (induction ev) auto

lemma addChanges_logs: "\<forall>e \<in> set (fst (addChanges rf status)). \<exists>m. e = Log m"
  unfolding addChanges_def addChanges_loop_eq by (auto split: if_splits)

lemma main_revision_False:
  "main_revision client opts repo repoId oid False =
     (case MutateCreateRef client
             \<lparr>ref_RepositoryID = repoId, Name = ''refs/heads/'' @ BranchName opts, Oid = oid\<rparr> of
        Inl err \<Rightarrow>
          ([Remote (CreateRefMutation
                      \<lparr>ref_RepositoryID = repoId, Name = ''refs/heads/'' @ BranchName opts, Oid = oid\<rparr>),
            Log (''unable to create branch: '' @ Error_s err)], Exit 1)
      | Inr mid \<Rightarrow>
          (case repo_Head repo of
             Inl err \<Rightarrow>
               ([Remote (CreateRefMutation
                           \<lparr>ref_RepositoryID = repoId, Name = ''refs/heads/'' @ BranchName opts, Oid = oid\<rparr>),
                 Log (BranchName opts @ '' branch created''),
                 Log (''unable to find HEAD revision: '' @ Error_s err)], Exit 1)
           | Inr revision \<Rightarrow>
               ([Remote (CreateRefMutation
                           \<lparr>ref_RepositoryID = repoId, Name = ''refs/heads/'' @ BranchName opts, Oid = oid\<rparr>),
                 Log (BranchName opts @ '' branch created'')], Return revision)))"
  by (simp add: main_revision_def CreateBranch_def fatalf_def Let_def split: sum.splits)

lemma fetchRemote_shape:
  obtains evf repo' ferr where "fetchRemote repo = (evf, Return (repo', ferr))"
    and "\<forall>e \<in> set evf. e = Fetch ''origin''" and "ferr \<noteq> None \<Longrightarrow> repo' = repo"
proof (cases "repo_Remote repo ''origin''")
  case (Inl err)
  then have "fetchRemote repo = ([], Return (repo, Some err))"
    by (simp add: fetchRemote_def)
  then show ?thesis by (rule that) simp_all
next
  case (Inr remote)
  show ?thesis
  proof (cases "remote_Fetch remote")
    case (Inl err)
    with Inr have "fetchRemote repo = ([Fetch ''origin''], Return (repo, Some err))"
      by (simp add: fetchRemote_def)
    then show ?thesis by (rule that) simp_all
  next
    case (Inr refs)
    with \<open>repo_Remote repo ''origin'' = Inr remote\<close>
    have "fetchRemote repo = ([Fetch ''origin''], Return (repo\<lparr>repo_Reference := refs\<rparr>, None))"
      by (simp add: fetchRemote_def)
    then show ?thesis by (rule that) simp_all
  qed
qed

lemma main_revision_True:
  assumes "fetchRemote repo = (evf, Return (repo', ferr))"
  shows "main_revision client opts repo repoId oid True =
     (evf @ (case ferr of Some e \<Rightarrow> [Log (''unable to fetch remote: '' @ Error_s e)] | None \<Rightarrow> [])
          @ (case repo_Reference repo' (''refs/remotes/origin/'' @ BranchName opts) of
               Inl err \<Rightarrow> [Log (''unable to find HEAD for branch '' @ BranchName opts @ '': '' @ Error_s err)]
             | Inr revision \<Rightarrow> []),
      case repo_Reference repo' (''refs/remotes/origin/'' @ BranchName opts) of
        Inl err \<Rightarrow> Exit 1
      | Inr revision \<Rightarrow> Return revision)"
  by (simp add: main_revision_def assms fatalf_def printf_def Let_def split: sum.splits option.splits)

lemma main_commit_eq:
  "main_commit client opts changes repoId revision =
     (case MutateCreateCommitOnBranch client
             \<lparr>Branch = \<lparr>RepositoryNameWithOwner = Some (Repository opts),
                        cb_BranchName = Some (BranchName opts)\<rparr>,
              Headline = Message opts, Additions = changes,
              ExpectedHeadOid = ref_Hash revision\<rparr> of
        Inl err \<Rightarrow>
          ([Remote (CreateCommitOnBranchMutation
                      \<lparr>Branch = \<lparr>RepositoryNameWithOwner = Some (Repository opts),
                                 cb_BranchName = Some (BranchName opts)\<rparr>,
                       Headline = Message opts, Additions = changes,
                       ExpectedHeadOid = ref_Hash revision\<rparr>),
            Log (''unable to commit: '' @ Error_s err)], Exit 1)
      | Inr url \<Rightarrow>
          ([Remote (CreateCommitOnBranchMutation
                      \<lparr>Branch = \<lparr>RepositoryNameWithOwner = Some (Repository opts),
                                 cb_BranchName = Some (BranchName opts)\<rparr>,
                       Headline = Message opts, Additions = changes,
                       ExpectedHeadOid = ref_Hash revision\<rparr>),
            Log (''mutation complete: '' @ url)]
           @ (if PullRequest opts then fst (andThen (CreatePullRequest client opts repoId)
                                              (\<lambda>err. check err ''unable to create PR: ''))
              else []),
           if PullRequest opts then snd (andThen (CreatePullRequest client opts repoId)
                                           (\<lambda>err. check err ''unable to create PR: ''))
           else Return ()))"
  by (simp add: main_commit_def DoCommit_def fatalf_def Let_def split: sum.splits prod.splits)

lemma pull_request_eq:
  "andThen (CreatePullRequest client opts repoId) (\<lambda>err. check err ''unable to create PR: '') =
     (case MutateCreatePullRequest client
             \<lparr>pr_RepositoryID = repoId, BaseRefName = ''main'', HeadRefName = BranchName opts,
              Title = Message opts\<rparr> of
        Inl err \<Rightarrow>
          ([Remote (CreatePullRequestMutation
                      \<lparr>pr_RepositoryID = repoId, BaseRefName = ''main'',
                       HeadRefName = BranchName opts, Title = Message opts\<rparr>),
            Log (''unable to create PR: '' @ Error_s err)], Exit 1)
      | Inr pid \<Rightarrow>
          ([Remote (CreatePullRequestMutation
                      \<lparr>pr_RepositoryID = repoId, BaseRefName = ''main'',
                       HeadRefName = BranchName opts, Title = Message opts\<rparr>),
            Log (''pull request created '' @ BranchName opts)], Return ()))"
  by (simp add: CreatePullRequest_def fatalf_def Let_def split: sum.splits)

lemma main_reach:
  assumes "Parse w = ParseOk opts" and "openRepository w = Inr (repo, status)"
    and "addChanges (ReadFile w) status = (ev1, Return changes)"
    and "getMainOid (github w) opts = (ev2, Return (oid, repoId, None))"
    and "CheckBranchExists (github w) opts = (ev3, Return (b, None))"
  shows "main w =
     (ev1 @ ev2 @ ev3 @
        fst (andThen (main_revision (github w) opts repo repoId oid b)
               (main_commit (github w) opts changes repoId)),
      snd (andThen (main_revision (github w) opts repo repoId oid b)
             (main_commit (github w) opts changes repoId)))"
  by (simp add: main_def assms split: prod.splits)

lemma getMainOid_shape:
  obtains (panic) "getMainOid client opts = ([], Panic (IndexOutOfRange 1 1))"
  | (asked) owner name oid repoId err where
      "getMainOid client opts = ([Remote (MainOidQuery owner name)], Return (oid, repoId, err))"
proof (cases "\<exists>owner name rest. Split (Repository opts) CHR ''/'' = owner # name # rest")
  case True
  then obtain owner name rest where "Split (Repository opts) CHR ''/'' = owner # name # rest"
    by blast
  from getMainOid_split [OF this, of client] show ?thesis
    by (cases "QueryMainOid client owner name") (auto intro: asked)
next
  case False
  from getMainOid_short [OF this] show ?thesis by (rule panic)
qed

lemma CheckBranchExists_shape:
  obtains (panic) "CheckBranchExists client opts = ([], Panic (IndexOutOfRange 1 1))"
  | (asked) ev b err where "CheckBranchExists client opts = (ev, Return (b, err))"
      and "creates ev = []" and "commits ev = []" and "pulls ev = []"
proof (cases "\<exists>owner name rest. Split (Repository opts) CHR ''/'' = owner # name # rest")
  case True
  then obtain owner name rest where "Split (Repository opts) CHR ''/'' = owner # name # rest"
    by blast
  from CheckBranchExists_split [OF this, of client] show ?thesis
    by (cases "QueryRef client owner name (''refs/heads/'' @ BranchName opts)") (auto intro: asked)
next
  case False
  from CheckBranchExists_short [OF this] show ?thesis by (rule panic)
qed

lemma main_cases:
  obtains (reach) opts repo status ev1 changes ev2 oid repoId ev3 b where
      "Parse w = ParseOk opts" and "openRepository w = Inr (repo, status)"
      and "addChanges (ReadFile w) status = (ev1, Return changes)"
      and "getMainOid (github w) opts = (ev2, Return (oid, repoId, None))"
      and "CheckBranchExists (github w) opts = (ev3, Return (b, None))"
  | (stop) "creates (fst (main w)) = []" and "commits (fst (main w)) = []"
      and "pulls (fst (main w)) = []" and "snd (main w) \<noteq> Return ()"
proof (cases "Parse w")
  case ParseHelp
  then have "main w = ([], Exit 0)" by (simp add: main_def)
  then show ?thesis by (intro stop) simp_all
next
  case ParseFlagError
  then have "main w = ([], Exit 1)" by (simp add: main_def)
  then show ?thesis by (intro stop) simp_all
next
  case (ParseOtherError err)
  then have "main w = ([Log (Error_s err)], Exit 1)" by (simp add: main_def fatalf_def)
  then show ?thesis by (intro stop) simp_all
next
  case (ParseOk opts)
  show ?thesis
  proof (cases "openRepository w")
    case (Inl err)
    with ParseOk have "main w = ([Log (''unable to open repository: '' @ Error_s err)], Exit 1)"
      by (simp add: main_def fatalf_def)
    then show ?thesis by (intro stop) simp_all
  next
    case (Inr rs)
    obtain repo status where rs: "rs = (repo, status)" by (cases rs)
    obtain ev1 r1 where ac: "addChanges (ReadFile w) status = (ev1, r1)"
      by (cases "addChanges (ReadFile w) status")
    from addChanges_logs [of "ReadFile w" status] ac have "\<forall>e \<in> set ev1. \<exists>m. e = Log m"
      by simp
    note l1 = only_logs(2-4) [OF this]
    show ?thesis
    proof (cases r1)
      case (Exit n)
      with ParseOk Inr rs ac have "main w = (ev1, Exit n)" by (simp add: main_def)
      with l1 show ?thesis by (intro stop) simp_all
    next
      case (Panic p)
      with ParseOk Inr rs ac have "main w = (ev1, Panic p)" by (simp add: main_def)
      with l1 show ?thesis by (intro stop) simp_all
    next
      case (Return changes)
      note ac = ac [unfolded Return]
      show ?thesis
      proof (cases rule: getMainOid_shape [of "github w" opts])
        case panic
        with ParseOk Inr rs ac have "main w = (ev1, Panic (IndexOutOfRange 1 1))"
          by (simp add: main_def)
        with l1 show ?thesis by (intro stop) simp_all
      next
        case (asked owner name oid repoId err)
        show ?thesis
        proof (cases err)
          case (Some e)
          with ParseOk Inr rs ac asked
          have "main w = (ev1 @ [Remote (MainOidQuery owner name), Log (''unable to lookup oid: '' @ Error_s e)], Exit 1)"
            by (simp add: main_def fatalf_def)
          with l1 show ?thesis by (intro stop) simp_all
        next
          case None
          note gm = asked [unfolded None]
          show ?thesis
          proof (cases rule: CheckBranchExists_shape [of "github w" opts])
            case panic
            with ParseOk Inr rs ac gm
            have "main w = (ev1 @ [Remote (MainOidQuery owner name)], Panic (IndexOutOfRange 1 1))"
              by (simp add: main_def)
            with l1 show ?thesis by (intro stop) simp_all
          next
            case (asked ev3 b err3)
            show ?thesis
            proof (cases err3)
              case (Some e)
              with ParseOk Inr rs ac gm asked
              have "main w = (ev1 @ [Remote (MainOidQuery owner name)] @ ev3
                                @ [Log (''unable to lookup branch: '' @ Error_s e)], Exit 1)"
                by (simp add: main_def fatalf_def)
              with l1 asked show ?thesis by (intro stop) simp_all
            next
              case None
              with ParseOk Inr rs ac gm asked show ?thesis
                by (intro reach [of opts repo status ev1 changes _ oid repoId ev3 b]) simp_all
            qed
          qed
        qed
      qed
    qed
  qed
qed

lemma only_fetches:
  assumes "\<forall>e \<in> set ev. e = Fetch r"
  shows "calls ev = []" and "creates ev = []" and "commits ev = []" and "pulls ev = []"
  using assms by (induction ev) auto

lemma getMainOid_quiet:
  assumes "getMainOid client opts = (ev, r)"
  shows "creates ev = []" and "commits ev = []" and "pulls ev = []"
proof -
  have "creates ev = [] \<and> commits ev = [] \<and> pulls ev = []"
  proof (cases rule: getMainOid_shape [of client opts])
    case panic
    with assms have "ev = []" by simp
    then show ?thesis by simp
  next
    case (asked owner name oid repoId err)
    with assms have "ev = [Remote (MainOidQuery owner name)]" by simp
    then show ?thesis by simp
  qed
  then show "creates ev = []" and "commits ev = []" and "pulls ev = []" by simp_all
qed

lemma CheckBranchExists_quiet:
  assumes "CheckBranchExists client opts = (ev, r)"
  shows "creates ev = []" and "commits ev = []" and "pulls ev = []"
proof -
  have "creates ev = [] \<and> commits ev = [] \<and> pulls ev = []"
  proof (cases rule: CheckBranchExists_shape [of client opts])
    case panic
    with assms have "ev = []" by simp
    then show ?thesis by simp
  next
    case (asked ev' b err)
    with assms have "ev = ev'" by simp
    with asked(2-4) show ?thesis by simp
  qed
  then show "creates ev = []" and "commits ev = []" and "pulls ev = []" by simp_all
qed

lemma addChanges_quiet:
  assumes "addChanges rf status = (ev, r)"
  shows "calls ev = []" and "creates ev = []" and "commits ev = []" and "pulls ev = []"
    and "Fetch x \<notin> set ev"
proof -
  from addChanges_logs [of rf status] assms have "\<forall>e \<in> set ev. \<exists>m. e = Log m" by simp
  from only_logs [OF this]
  show "calls ev = []" and "creates ev = []" and "commits ev = []" and "pulls ev = []"
    and "Fetch x \<notin> set ev" by simp_all
qed

lemma main_revision_traces:
  shows "creates (fst (main_revision client opts repo repoId oid b)) =
           (if b then []
            else [\<lparr>ref_RepositoryID = repoId, Name = ''refs/heads/'' @ BranchName opts, Oid = oid\<rparr>])"
    and "commits (fst (main_revision client opts repo repoId oid b)) = []"
    and "pulls (fst (main_revision client opts repo repoId oid b)) = []"
proof -
  obtain evf repo' ferr where f: "fetchRemote repo = (evf, Return (repo', ferr))"
    and "\<forall>e \<in> set evf. e = Fetch ''origin''"
    by (rule fetchRemote_shape)
  note q = only_fetches(2-4) [OF this(2)]
  show "creates (fst (main_revision client opts repo repoId oid b)) =
           (if b then []
            else [\<lparr>ref_RepositoryID = repoId, Name = ''refs/heads/'' @ BranchName opts, Oid = oid\<rparr>])"
    by (cases b) (simp_all add: main_revision_True [OF f] main_revision_False q
        split: sum.splits option.splits)
  show "commits (fst (main_revision client opts repo repoId oid b)) = []"
    by (cases b) (simp_all add: main_revision_True [OF f] main_revision_False q
        split: sum.splits option.splits)
  show "pulls (fst (main_revision client opts repo repoId oid b)) = []"
    by (cases b) (simp_all add: main_revision_True [OF f] main_revision_False q
        split: sum.splits option.splits)
qed

lemma main_commit_traces:
  shows "creates (fst (main_commit client opts changes repoId revision)) = []"
    and "commits (fst (main_commit client opts changes repoId revision)) =
           [\<lparr>Branch = \<lparr>RepositoryNameWithOwner = Some (Repository opts),
                       cb_BranchName = Some (BranchName opts)\<rparr>,
             Headline = Message opts, Additions = changes,
             ExpectedHeadOid = ref_Hash revision\<rparr>]"
    and "pulls (fst (main_commit client opts changes repoId revision)) =
           (case MutateCreateCommitOnBranch client
                   \<lparr>Branch = \<lparr>RepositoryNameWithOwner = Some (Repository opts),
                              cb_BranchName = Some (BranchName opts)\<rparr>,
                    Headline = Message opts, Additions = changes,
                    ExpectedHeadOid = ref_Hash revision\<rparr> of
              Inl err \<Rightarrow> []
            | Inr url \<Rightarrow>
                if PullRequest opts
                then [\<lparr>pr_RepositoryID = repoId, BaseRefName = ''main'',
                       HeadRefName = BranchName opts, Title = Message opts\<rparr>]
                else [])"
  by (simp_all add: main_commit_eq pull_request_eq split: sum.splits)

lemma main_traces:
  assumes "Parse w = ParseOk opts" and "openRepository w = Inr (repo, status)"
    and "addChanges (ReadFile w) status = (ev1, Return changes)"
    and "getMainOid (github w) opts = (ev2, Return (oid, repoId, None))"
    and "CheckBranchExists (github w) opts = (ev3, Return (b, None))"
  shows "creates (fst (main w)) =
           (if b then []
            else [\<lparr>ref_RepositoryID = repoId, Name = ''refs/heads/'' @ BranchName opts, Oid = oid\<rparr>])"
    and "commits (fst (main w)) =
           (case snd (main_revision (github w) opts repo repoId oid b) of
              Return revision \<Rightarrow> commits (fst (main_commit (github w) opts changes repoId revision))
            | Exit n \<Rightarrow> []
            | Panic p \<Rightarrow> [])"
    and "pulls (fst (main w)) =
           (case snd (main_revision (github w) opts repo repoId oid b) of
              Return revision \<Rightarrow> pulls (fst (main_commit (github w) opts changes repoId revision))
            | Exit n \<Rightarrow> []
            | Panic p \<Rightarrow> [])"
    and "snd (main w) =
           (case snd (main_revision (github w) opts repo repoId oid b) of
              Return revision \<Rightarrow> snd (main_commit (github w) opts changes repoId revision)
            | Exit n \<Rightarrow> Exit n
            | Panic p \<Rightarrow> Panic p)"
proof -
  let ?R = "main_revision (github w) opts repo repoId oid b"
  let ?C = "main_commit (github w) opts changes repoId"
  note m = main_reach [OF assms]
  note q = addChanges_quiet(2-4) [OF assms(3)] getMainOid_quiet [OF assms(4)]
    CheckBranchExists_quiet [OF assms(5)]
  have f: "fst (main w) = ev1 @ ev2 @ ev3 @ fst (andThen ?R ?C)"
    and s: "snd (main w) = snd (andThen ?R ?C)"
    unfolding m by simp_all
  have a: "fst (andThen ?R ?C) =
      fst ?R @ (case snd ?R of Return revision \<Rightarrow> fst (?C revision) | Exit n \<Rightarrow> [] | Panic p \<Rightarrow> [])"
    unfolding andThen_eq by (cases "snd ?R") simp_all
  show "creates (fst (main w)) =
           (if b then []
            else [\<lparr>ref_RepositoryID = repoId, Name = ''refs/heads/'' @ BranchName opts, Oid = oid\<rparr>])"
    unfolding f a by (cases "snd ?R") (simp_all add: q main_revision_traces main_commit_traces(1))
  show "commits (fst (main w)) =
           (case snd ?R of
              Return revision \<Rightarrow> commits (fst (?C revision))
            | Exit n \<Rightarrow> []
            | Panic p \<Rightarrow> [])"
    unfolding f a by (cases "snd ?R") (simp_all add: q main_revision_traces)
  show "pulls (fst (main w)) =
           (case snd ?R of
              Return revision \<Rightarrow> pulls (fst (?C revision))
            | Exit n \<Rightarrow> []
            | Panic p \<Rightarrow> [])"
    unfolding f a by (cases "snd ?R") (simp_all add: q main_revision_traces)
  show "snd (main w) =
           (case snd ?R of
              Return revision \<Rightarrow> snd (?C revision)
            | Exit n \<Rightarrow> Exit n
            | Panic p \<Rightarrow> Panic p)"
    unfolding s andThen_eq by (cases "snd ?R") simp_all
qed

section \<open>The example runs, step by step\<close>

lemma ex_world_facts:
  "Parse (ex_world opts status h service) = ParseOk opts"
  "openRepository (ex_world opts status h service) = Inr (ex_repo status h, status)"
  "ReadFile (ex_world opts status h service) = ex_files"
  "github (ex_world opts status h service) = service"
  by (simp_all add: ex_world_def ex_repo_def openRepository_def)

lemma ex_addChanges:
  "addChanges ex_files [(''a.txt'', ex_st Unmodified Modified)]
     = ([Log ''adding a.txt''], Return [\<lparr>Path = ''a.txt'', Contents = ''aGk=''\<rparr>])"
  by (simp add: addChanges_def qualifies_def ex_st_def ex_files_def encodeStd_def)

lemma ex_Split: "Split ''org/repo'' CHR ''/'' = [''org'', ''repo'']"
  by simp

lemma ex_getMainOid:
  "getMainOid (ex_github rn tip) (ex_opts ''org/repo'' pr)
     = ([Remote (MainOidQuery ''org'' ''repo'')], Return (''2222'', ''R_1'', None))"
  "getMainOid ex_github_denied (ex_opts ''org/repo'' pr)
     = ([Remote (MainOidQuery ''org'' ''repo'')], Return (''2222'', ''R_1'', None))"
  by (simp_all add: getMainOid_def index_def ex_github_denied_def ex_github_def ex_opts_def)

lemma ex_CheckBranchExists:
  "CheckBranchExists (ex_github [] tip) (ex_opts ''org/repo'' pr)
     = ([Remote (RefQuery ''org'' ''repo'' ''refs/heads/feature-x''),
         Log ''a branch with the name feature-x was not found''], Return (False, None))"
  "CheckBranchExists ex_github_denied (ex_opts ''org/repo'' pr)
     = ([Remote (RefQuery ''org'' ''repo'' ''refs/heads/feature-x''),
         Log ''a branch with the name feature-x was not found''], Return (False, None))"
  "CheckBranchExists (ex_github ''feature-x'' tip) (ex_opts ''org/repo'' pr)
     = ([Remote (RefQuery ''org'' ''repo'' ''refs/heads/feature-x''),
         Log ''branch found: feature-x''], Return (True, None))"
  by (simp_all add: CheckBranchExists_def index_def ex_github_denied_def ex_github_def ex_opts_def)

lemma ex_new_branch_run:
  fixes pr :: bool and h tip :: string
  defines "w \<equiv> ex_world (ex_opts ''org/repo'' pr) [(''a.txt'', ex_st Unmodified Modified)] h
                    (ex_github [] tip)"
  shows "creates (fst (main w))
           = [\<lparr>ref_RepositoryID = ''R_1'', Name = ''refs/heads/feature-x'', Oid = ''2222''\<rparr>]"
    and "commits (fst (main w))
           = [\<lparr>Branch = \<lparr>RepositoryNameWithOwner = Some ''org/repo'',
                         cb_BranchName = Some ''feature-x''\<rparr>,
               Headline = ''update docs'',
               Additions = [\<lparr>Path = ''a.txt'', Contents = ''aGk=''\<rparr>],
               ExpectedHeadOid = h\<rparr>]"
    and "snd (main w) = (if h = tip then Return () else Exit 1)"
    and "pulls (fst (main w))
           = (if h = tip \<and> pr
              then [\<lparr>pr_RepositoryID = ''R_1'', BaseRefName = ''main'',
                     HeadRefName = ''feature-x'', Title = ''update docs''\<rparr>]
              else [])"
proof -
  let ?opts = "ex_opts ''org/repo'' pr"
  let ?status = "[(''a.txt'', ex_st Unmodified Modified)]"
  let ?gh = "ex_github [] tip"
  have p: "Parse w = ParseOk ?opts" "openRepository w = Inr (ex_repo ?status h, ?status)"
    "addChanges (ReadFile w) ?status
       = ([Log ''adding a.txt''], Return [\<lparr>Path = ''a.txt'', Contents = ''aGk=''\<rparr>])"
    "getMainOid (github w) ?opts
       = ([Remote (MainOidQuery ''org'' ''repo'')], Return (''2222'', ''R_1'', None))"
    "CheckBranchExists (github w) ?opts
       = ([Remote (RefQuery ''org'' ''repo'' ''refs/heads/feature-x''),
           Log ''a branch with the name feature-x was not found''], Return (False, None))"
    unfolding w_def by (simp_all add: ex_world_facts ex_addChanges ex_getMainOid ex_CheckBranchExists)
  note t = main_traces [OF p]
  have g: "github w = ?gh" unfolding w_def by (simp add: ex_world_facts)
  have r: "snd (main_revision ?gh ?opts (ex_repo ?status h) ''R_1'' ''2222'' False)
      = Return \<lparr>ref_Name = ''refs/heads/main'', ref_Hash = h\<rparr>"
    by (simp add: main_revision_False ex_github_def ex_repo_def)
  show "creates (fst (main w))
           = [\<lparr>ref_RepositoryID = ''R_1'', Name = ''refs/heads/feature-x'', Oid = ''2222''\<rparr>]"
    unfolding t(1) by (simp add: ex_opts_def)
  show "commits (fst (main w))
           = [\<lparr>Branch = \<lparr>RepositoryNameWithOwner = Some ''org/repo'',
                         cb_BranchName = Some ''feature-x''\<rparr>,
               Headline = ''update docs'',
               Additions = [\<lparr>Path = ''a.txt'', Contents = ''aGk=''\<rparr>],
               ExpectedHeadOid = h\<rparr>]"
    unfolding t(2) g r by (simp add: main_commit_traces(2) ex_opts_def)
  show "snd (main w) = (if h = tip then Return () else Exit 1)"
    unfolding t(4) g r
    by (simp add: main_commit_eq pull_request_eq ex_github_def ex_opts_def)
  show "pulls (fst (main w))
           = (if h = tip \<and> pr
              then [\<lparr>pr_RepositoryID = ''R_1'', BaseRefName = ''main'',
                     HeadRefName = ''feature-x'', Title = ''update docs''\<rparr>]
              else [])"
    unfolding t(3) g r
    by (simp add: main_commit_traces(3) ex_github_def ex_opts_def)
qed

section \<open>What the pull-request option does not touch\<close>

lemma main_revision_events:
  assumes "Parse w = ParseOk opts" and "openRepository w = Inr (repo, status)"
    and "addChanges (ReadFile w) status = (ev1, Return changes)"
    and "getMainOid (github w) opts = (ev2, Return (oid, repoId, None))"
    and "CheckBranchExists (github w) opts = (ev3, Return (b, None))"
  shows "set (fst (main_revision (github w) opts repo repoId oid b)) \<subseteq> set (fst (main w))"
proof -
  let ?R = "main_revision (github w) opts repo repoId oid b"
  let ?C = "main_commit (github w) opts changes repoId"
  have "fst (main w) = ev1 @ ev2 @ ev3 @ fst (andThen ?R ?C)"
    unfolding main_reach [OF assms] by simp
  moreover have "set (fst ?R) \<subseteq> set (fst (andThen ?R ?C))"
    unfolding andThen_eq by (cases "snd ?R") simp_all
  ultimately show ?thesis by auto
qed

lemma flag_irrelevant:
  "getMainOid client (opts\<lparr>PullRequest := p\<rparr>) = getMainOid client opts"
  "CheckBranchExists client (opts\<lparr>PullRequest := p\<rparr>) = CheckBranchExists client opts"
  "CreateBranch client (opts\<lparr>PullRequest := p\<rparr>) repoId oid = CreateBranch client opts repoId oid"
  "DoCommit client changes (opts\<lparr>PullRequest := p\<rparr>) revision = DoCommit client changes opts revision"
proof -
  have f: "Repository (opts\<lparr>PullRequest := p\<rparr>) = Repository opts"
    "BranchName (opts\<lparr>PullRequest := p\<rparr>) = BranchName opts"
    "Message (opts\<lparr>PullRequest := p\<rparr>) = Message opts"
    by simp_all
  show "getMainOid client (opts\<lparr>PullRequest := p\<rparr>) = getMainOid client opts"
    unfolding getMainOid_def f ..
  show "CheckBranchExists client (opts\<lparr>PullRequest := p\<rparr>) = CheckBranchExists client opts"
    unfolding CheckBranchExists_def f ..
  show "CreateBranch client (opts\<lparr>PullRequest := p\<rparr>) repoId oid = CreateBranch client opts repoId oid"
    unfolding CreateBranch_def f ..
  show "DoCommit client changes (opts\<lparr>PullRequest := p\<rparr>) revision = DoCommit client changes opts revision"
    unfolding DoCommit_def f ..
qed

lemma main_revision_flag:
  "main_revision client (opts\<lparr>PullRequest := p\<rparr>) repo repoId oid b
     = main_revision client opts repo repoId oid b"
proof -
  have f: "BranchName (opts\<lparr>PullRequest := p\<rparr>) = BranchName opts"
    by simp
  show ?thesis
    unfolding main_revision_def flag_irrelevant f ..
qed

lemma commits_main_flag:
  assumes "Parse w = ParseOk opts" and "openRepository w = Inr (repo, status)"
    and "addChanges (ReadFile w) status = (ev1, Return changes)"
    and "getMainOid (github w) opts = (ev2, Return (oid, repoId, None))"
    and "CheckBranchExists (github w) opts = (ev3, Return (b, None))"
  shows "commits (fst (main (w\<lparr>Parse := ParseOk (opts\<lparr>PullRequest := p\<rparr>)\<rparr>))) = commits (fst (main w))"
proof -
  let ?w = "w\<lparr>Parse := ParseOk (opts\<lparr>PullRequest := p\<rparr>)\<rparr>"
  let ?o = "opts\<lparr>PullRequest := p\<rparr>"
  have o: "openRepository ?w = Inr (repo, status)"
    using assms(2) by (simp add: openRepository_def)
  have p': "Parse ?w = ParseOk ?o" "openRepository ?w = Inr (repo, status)"
    "addChanges (ReadFile ?w) status = (ev1, Return changes)"
    "getMainOid (github ?w) ?o = (ev2, Return (oid, repoId, None))"
    "CheckBranchExists (github ?w) ?o = (ev3, Return (b, None))"
    using assms(3-5) o by (simp_all add: flag_irrelevant)
  have g: "github ?w = github w" by simp
  show ?thesis
    unfolding main_traces(2) [OF p'] main_traces(2) [OF assms] g main_revision_flag
    by (cases "snd (main_revision (github w) opts repo repoId oid b)")
      (simp_all add: main_commit_traces(2))
qed

section \<open>The change collector\<close>

text \<open>
  C2: when no path of the working-tree status qualifies, \<open>addChanges\<close> ends the process
  with exit code 0, and the run has made no GraphQL round trip and no fetch: its whole
  trace is the one log line.
\<close>

theorem C2_nothing_to_commit:
  assumes "Parse w = ParseOk opts" and "openRepository w = Inr (repo, status)"
    and "\<forall>(name, s) \<in> set status.
           \<not> (Worktree s = Modified \<or> Staging s = Added \<or> Staging s = Modified)"
  shows "addChanges (ReadFile w) status = ([Log ''no changes to commit, exiting''], Exit 0)
       \<and> main w = ([Log ''no changes to commit, exiting''], Exit 0)
       \<and> calls (fst (main w)) = []
       \<and> (\<forall>r. Fetch r \<notin> set (fst (main w)))"
proof -
  from assms(3) have "\<forall>x \<in> set status. \<not> (case x of (n, s) \<Rightarrow> qualifies s)"
    unfolding qualifies_def by blast
  then have "filter (\<lambda>(n, s). qualifies s) status = []"
    unfolding filter_empty_conv .
  then have a: "addChanges (ReadFile w) status = ([Log ''no changes to commit, exiting''], Exit 0)"
    by (rule addChanges_none)
  with assms(1,2) have m: "main w = ([Log ''no changes to commit, exiting''], Exit 0)"
    by (simp add: main_def)
  from a m show ?thesis by simp
qed

theorem C2_nothing_to_commit_witness:
  "main (ex_world (ex_opts ''org/repo'' True)
           [(''gone.txt'', ex_st Deleted Unmodified), (''notes.txt'', ex_st Untracked Untracked)]
           ''1111'' (ex_github [] ''2222''))
     = ([Log ''no changes to commit, exiting''], Exit 0)"
  using C2_nothing_to_commit [of
      "ex_world (ex_opts ''org/repo'' True)
         [(''gone.txt'', ex_st Deleted Unmodified), (''notes.txt'', ex_st Untracked Untracked)]
         ''1111'' (ex_github [] ''2222'')"
      "ex_opts ''org/repo'' True"
      "ex_repo [(''gone.txt'', ex_st Deleted Unmodified), (''notes.txt'', ex_st Untracked Untracked)] ''1111''"
      "[(''gone.txt'', ex_st Deleted Unmodified), (''notes.txt'', ex_st Untracked Untracked)]"]
  by (simp add: ex_world_def ex_repo_def ex_st_def openRepository_def)

text \<open>
  C3 (as amended): a path of the status map is taken by \<open>addChanges\<close> exactly when its
  worktree state is modified, or its staging state is added or modified. A deleted or
  renamed state on one side does not exclude the path: with a deleted or renamed staging
  state it is taken exactly when the worktree state is modified, and with a deleted or
  renamed worktree state exactly when the staging state is added or modified.
\<close>

theorem C3_selection_rule:
  assumes "distinct (map fst status)" and "(p, s) \<in> set status"
  shows "(p \<in> Path ` set (collected (addChanges rf status))
            \<longleftrightarrow> (Worktree s = Modified \<or> Staging s = Added \<or> Staging s = Modified))
       \<and> (Staging s \<in> {Deleted, Renamed} \<longrightarrow>
            (p \<in> Path ` set (collected (addChanges rf status)) \<longleftrightarrow> Worktree s = Modified))
       \<and> (Worktree s \<in> {Deleted, Renamed} \<longrightarrow>
            (p \<in> Path ` set (collected (addChanges rf status))
               \<longleftrightarrow> (Staging s = Added \<or> Staging s = Modified)))"
proof -
  have uniq: "s' = s" if "(p, s') \<in> set status" for s'
    using eq_key_imp_eq_value [OF assms(1) that assms(2)] .
  have sel: "p \<in> Path ` set (collected (addChanges rf status)) \<longleftrightarrow> qualifies s"
    unfolding paths_collected using assms(2) uniq by blast
  have a: "qualifies s \<longleftrightarrow> (Worktree s = Modified \<or> Staging s = Added \<or> Staging s = Modified)"
    by (simp add: qualifies_def)
  have b: "Staging s \<in> {Deleted, Renamed} \<Longrightarrow> qualifies s \<longleftrightarrow> Worktree s = Modified"
    by (auto simp: qualifies_def)
  have c: "Worktree s \<in> {Deleted, Renamed} \<Longrightarrow> qualifies s \<longleftrightarrow> (Staging s = Added \<or> Staging s = Modified)"
    by (auto simp: qualifies_def)
  show ?thesis
    unfolding sel using a b c by blast
qed

theorem C3_selection_rule_witness:
  "''a.txt'' \<in> Path ` set (collected (addChanges ex_files
      [(''a.txt'', ex_st Unmodified Modified), (''gone.txt'', ex_st Deleted Unmodified)]))
   \<and> ''gone.txt'' \<notin> Path ` set (collected (addChanges ex_files
      [(''a.txt'', ex_st Unmodified Modified), (''gone.txt'', ex_st Deleted Unmodified)]))"
  using C3_selection_rule [of "[(''a.txt'', ex_st Unmodified Modified), (''gone.txt'', ex_st Deleted Unmodified)]"
      "''a.txt''" "ex_st Unmodified Modified" ex_files]
    C3_selection_rule [of "[(''a.txt'', ex_st Unmodified Modified), (''gone.txt'', ex_st Deleted Unmodified)]"
      "''gone.txt''" "ex_st Deleted Unmodified" ex_files]
  by (simp add: ex_st_def)

text \<open>
  C3 as first stated, with deleted and renamed paths never taken, fails: a file whose
  addition is staged and which has since been deleted from the working tree is a deleted
  path, and it is taken (its entry has empty contents, as the read fails).
\<close>

theorem C3_deleted_path_selected:
  "Worktree (ex_st Added Deleted) = Deleted
   \<and> ''new.txt'' \<in> Path ` set (collected (addChanges ex_files [(''new.txt'', ex_st Added Deleted)]))"
  by (simp add: collected_addChanges qualifies_def ex_st_def)

text \<open>
  C8: for a qualifying path of the status map, the changes hold exactly one entry for it,
  with the base64 encoding of the bytes read from the file; when the read fails, the entry
  is still there, with the encoding of no bytes (the empty string), and nothing but the
  usual "adding" line is logged: the trace and the result do not show the error.
\<close>

theorem C8_one_entry_per_path:
  assumes "distinct (map fst status)" and "(p, s) \<in> set status"
    and "Worktree s = Modified \<or> Staging s = Added \<or> Staging s = Modified"
  shows "filter (\<lambda>c. Path c = p) (collected (addChanges rf status))
           = [\<lparr>Path = p, Contents = EncodeToString (case rf p of Inl err \<Rightarrow> [] | Inr data \<Rightarrow> data)\<rparr>]
       \<and> (\<forall>err. rf p = Inl err \<longrightarrow>
             filter (\<lambda>c. Path c = p) (collected (addChanges rf status)) = [\<lparr>Path = p, Contents = []\<rparr>])
       \<and> addChanges rf status =
           (map (\<lambda>(n, s). Log (''adding '' @ n)) (filter (\<lambda>(n, s). qualifies s) status),
            Return (collected (addChanges rf status)))"
proof -
  let ?q = "\<lambda>(n, s). qualifies s"
  let ?mk = "\<lambda>(n, s). \<lparr>Path = n, Contents = EncodeToString (case rf n of Inl err \<Rightarrow> [] | Inr data \<Rightarrow> data)\<rparr>"
  have q: "qualifies s" using assms(3) by (simp add: qualifies_def)
  have mk: "filter (\<lambda>c. Path c = p) (map ?mk xs) = map ?mk (filter (\<lambda>x. fst x = p) xs)" for xs :: Status
    by (induction xs) auto
  have swap: "filter (\<lambda>x. fst x = p) (filter ?q status) = filter ?q (filter (\<lambda>x. fst x = p) status)"
    by (induction status) auto
  have "filter (\<lambda>c. Path c = p) (collected (addChanges rf status))
          = map ?mk (filter ?q (filter (\<lambda>x. fst x = p) status))"
    unfolding collected_addChanges mk swap ..
  also have "\<dots> = map ?mk (filter ?q [(p, s)])"
    unfolding filter_key_distinct [OF assms(1,2)] ..
  also have "\<dots> = [\<lparr>Path = p, Contents = EncodeToString (case rf p of Inl err \<Rightarrow> [] | Inr data \<Rightarrow> data)\<rparr>]"
    using q by simp
  finally have one: "filter (\<lambda>c. Path c = p) (collected (addChanges rf status))
      = [\<lparr>Path = p, Contents = EncodeToString (case rf p of Inl err \<Rightarrow> [] | Inr data \<Rightarrow> data)\<rparr>]" .
  have ne: "filter ?q status \<noteq> []"
  proof
    assume "filter ?q status = []"
    then have "\<not> ?q (p, s)" using assms(2) unfolding filter_empty_conv by blast
    with q show False by simp
  qed
  have swallowed: "filter (\<lambda>c. Path c = p) (collected (addChanges rf status)) = [\<lparr>Path = p, Contents = []\<rparr>]"
    if "rf p = Inl err" for err
    unfolding one using that by simp
  from one swallowed addChanges_some [OF ne, of rf] show ?thesis
    by blast
qed

theorem C8_one_entry_per_path_witness:
  "filter (\<lambda>c. Path c = ''a.txt'')
      (collected (addChanges ex_files [(''a.txt'', ex_st Unmodified Modified), (''b.txt'', ex_st Added Unmodified)]))
      = [\<lparr>Path = ''a.txt'', Contents = ''aGk=''\<rparr>]
   \<and> filter (\<lambda>c. Path c = ''b.txt'')
      (collected (addChanges ex_files [(''a.txt'', ex_st Unmodified Modified), (''b.txt'', ex_st Added Unmodified)]))
      = [\<lparr>Path = ''b.txt'', Contents = []\<rparr>]"
  using C8_one_entry_per_path [of "[(''a.txt'', ex_st Unmodified Modified), (''b.txt'', ex_st Added Unmodified)]"
      "''a.txt''" "ex_st Unmodified Modified" ex_files]
    C8_one_entry_per_path [of "[(''a.txt'', ex_st Unmodified Modified), (''b.txt'', ex_st Added Unmodified)]"
      "''b.txt''" "ex_st Added Unmodified" ex_files]
  by (simp add: ex_st_def ex_files_def encodeStd_def)

section \<open>The queries\<close>

text \<open>
  C4: \<open>CheckBranchExists\<close> asks for the ref \<open>refs/heads/<BranchName>\<close> of the repository
  named by the two components of the identifier. It returns true (with no error) exactly
  when the service answers with a non-empty ref name; when the query fails it returns
  false together with that error, and when the name in the answer is empty it returns
  false with no error.
\<close>

theorem C4_branch_exists_iff_ref_name:
  "(snd (CheckBranchExists client opts) = Return (True, None)
      \<longleftrightarrow> (\<exists>owner name rest ref_name.
             Split (Repository opts) CHR ''/'' = owner # name # rest
           \<and> QueryRef client owner name (''refs/heads/'' @ BranchName opts) = Inr ref_name
           \<and> ref_name \<noteq> []))
   \<and> (\<forall>owner name rest err.
         Split (Repository opts) CHR ''/'' = owner # name # rest
       \<and> QueryRef client owner name (''refs/heads/'' @ BranchName opts) = Inl err
       \<longrightarrow> snd (CheckBranchExists client opts) = Return (False, Some err))
   \<and> (\<forall>owner name rest.
         Split (Repository opts) CHR ''/'' = owner # name # rest
       \<and> QueryRef client owner name (''refs/heads/'' @ BranchName opts) = Inr []
       \<longrightarrow> snd (CheckBranchExists client opts) = Return (False, None))"
proof (cases "\<exists>owner name rest. Split (Repository opts) CHR ''/'' = owner # name # rest")
  case True
  then obtain owner name rest where sp: "Split (Repository opts) CHR ''/'' = owner # name # rest"
    by blast
  show ?thesis
    unfolding CheckBranchExists_split [OF sp] sp
    by (cases "QueryRef client owner name (''refs/heads/'' @ BranchName opts)") auto
next
  case False
  from CheckBranchExists_short [OF False, of client] False show ?thesis
    by simp
qed

theorem C4_branch_exists_iff_ref_name_witness:
  "snd (CheckBranchExists (ex_github ''feature-x'' ''4444'') (ex_opts ''org/repo'' False)) = Return (True, None)
   \<and> snd (CheckBranchExists (ex_github [] ''2222'') (ex_opts ''org/repo'' False)) = Return (False, None)"
  using C4_branch_exists_iff_ref_name [of "ex_github ''feature-x'' ''4444''" "ex_opts ''org/repo'' False"]
    C4_branch_exists_iff_ref_name [of "ex_github [] ''2222''" "ex_opts ''org/repo'' False"]
  by (simp add: ex_github_def ex_opts_def)

text \<open>
  C7: for a repository identifier without \<open>/\<close>, both queries panic on the index 1 of a
  slice of length 1 before anything is sent or logged, and so does the run once it has
  changes to commit; for an identifier with exactly one \<open>/\<close>, the owner and the name
  sent are the parts before and after it.
\<close>

theorem C7_repository_identifier:
  "(CHR ''/'' \<notin> set (Repository opts) \<longrightarrow>
       getMainOid client opts = ([], Panic (IndexOutOfRange 1 1))
     \<and> CheckBranchExists client opts = ([], Panic (IndexOutOfRange 1 1))
     \<and> (\<forall>w repo status ev changes.
           Parse w = ParseOk opts \<and> openRepository w = Inr (repo, status)
         \<and> addChanges (ReadFile w) status = (ev, Return changes)
         \<longrightarrow> main w = (ev, Panic (IndexOutOfRange 1 1))))
   \<and> (\<forall>owner name.
         Repository opts = owner @ ''/'' @ name \<and> CHR ''/'' \<notin> set owner \<and> CHR ''/'' \<notin> set name
       \<longrightarrow> calls (fst (getMainOid client opts)) = [MainOidQuery owner name]
         \<and> calls (fst (CheckBranchExists client opts))
             = [RefQuery owner name (''refs/heads/'' @ BranchName opts)])"
proof -
  have one: "main w = (ev, Panic (IndexOutOfRange 1 1))"
    if "CHR ''/'' \<notin> set (Repository opts)" and "Parse w = ParseOk opts"
      and "openRepository w = Inr (repo, status)"
      and "addChanges (ReadFile w) status = (ev, Return changes)"
    for w repo status ev changes
    using that(2-4) getMainOid_no_sep [OF that(1), of "github w"]
    by (simp add: main_def)
  have two: "calls (fst (getMainOid client opts)) = [MainOidQuery owner name]
         \<and> calls (fst (CheckBranchExists client opts))
             = [RefQuery owner name (''refs/heads/'' @ BranchName opts)]"
    if "Repository opts = owner @ ''/'' @ name" and "CHR ''/'' \<notin> set owner"
      and "CHR ''/'' \<notin> set name" for owner name
  proof -
    from that have sp: "Split (Repository opts) CHR ''/'' = owner # name # []"
      by (simp add: Split_once)
    show ?thesis
      unfolding getMainOid_split [OF sp] CheckBranchExists_split [OF sp]
      by (cases "QueryRef client owner name (''refs/heads/'' @ BranchName opts)") simp_all
  qed
  from one two getMainOid_no_sep [of opts client] CheckBranchExists_no_sep [of opts client]
  show ?thesis by blast
qed

theorem C7_repository_identifier_witness:
  "getMainOid (ex_github [] ''2222'') (ex_opts ''orgrepo'' False) = ([], Panic (IndexOutOfRange 1 1))
   \<and> main (ex_world (ex_opts ''orgrepo'' False) [(''a.txt'', ex_st Unmodified Modified)] ''1111''
              (ex_github [] ''2222''))
       = ([Log ''adding a.txt''], Panic (IndexOutOfRange 1 1))
   \<and> calls (fst (getMainOid (ex_github [] ''2222'') (ex_opts ''org/repo'' False)))
       = [MainOidQuery ''org'' ''repo'']"
proof -
  let ?bad = "ex_opts ''orgrepo'' False"
  let ?good = "ex_opts ''org/repo'' False"
  let ?gh = "ex_github [] ''2222''"
  let ?status = "[(''a.txt'', ex_st Unmodified Modified)]"
  let ?w = "ex_world ?bad ?status ''1111'' ?gh"
  have no: "CHR ''/'' \<notin> set (Repository ?bad)"
    by (simp add: ex_opts_def)
  have run: "Parse ?w = ParseOk ?bad \<and> openRepository ?w = Inr (ex_repo ?status ''1111'', ?status)
      \<and> addChanges (ReadFile ?w) ?status
          = ([Log ''adding a.txt''], Return [\<lparr>Path = ''a.txt'', Contents = ''aGk=''\<rparr>])"
    by (simp add: ex_world_def ex_repo_def openRepository_def addChanges_def qualifies_def
        ex_st_def ex_files_def encodeStd_def)
  have once: "Repository ?good = ''org'' @ ''/'' @ ''repo'' \<and> CHR ''/'' \<notin> set ''org''
      \<and> CHR ''/'' \<notin> set ''repo''"
    by (simp add: ex_opts_def)
  from C7_repository_identifier [of ?bad ?gh] no
  have a: "getMainOid ?gh ?bad = ([], Panic (IndexOutOfRange 1 1))"
    and b: "\<forall>w repo status ev changes.
           Parse w = ParseOk ?bad \<and> openRepository w = Inr (repo, status)
         \<and> addChanges (ReadFile w) status = (ev, Return changes)
         \<longrightarrow> main w = (ev, Panic (IndexOutOfRange 1 1))"
    by blast+
  from b run have c: "main ?w = ([Log ''adding a.txt''], Panic (IndexOutOfRange 1 1))"
    by blast
  from C7_repository_identifier [of ?good ?gh] once
  have d: "calls (fst (getMainOid ?gh ?good)) = [MainOidQuery ''org'' ''repo'']"
    by blast
  from a c d show ?thesis by blast
qed

section \<open>The orchestration of the mutations\<close>

text \<open>
  C9: every branch-creation mutation of a run is sent after the existence check has
  returned false, names the ref \<open>refs/heads/<BranchName>\<close> and points it at the object-id
  that \<open>getMainOid\<close> returned, for the repository id it returned; when the service rejects
  it, the run ends with exit code 1 and has sent no commit. Conversely a run in which the
  check returned false sends exactly this one creation.
\<close>

theorem C9_branch_creation:
  "(\<forall>i \<in> set (creates (fst (main w))).
      (\<exists>opts ev2 ev3 oid repoId.
          Parse w = ParseOk opts
        \<and> getMainOid (github w) opts = (ev2, Return (oid, repoId, None))
        \<and> CheckBranchExists (github w) opts = (ev3, Return (False, None))
        \<and> i = \<lparr>ref_RepositoryID = repoId, Name = ''refs/heads/'' @ BranchName opts, Oid = oid\<rparr>)
    \<and> (\<forall>err. MutateCreateRef (github w) i = Inl err
          \<longrightarrow> snd (main w) = Exit 1 \<and> commits (fst (main w)) = []))
   \<and> (\<forall>opts repo status ev1 changes ev2 oid repoId ev3.
         Parse w = ParseOk opts \<and> openRepository w = Inr (repo, status)
       \<and> addChanges (ReadFile w) status = (ev1, Return changes)
       \<and> getMainOid (github w) opts = (ev2, Return (oid, repoId, None))
       \<and> CheckBranchExists (github w) opts = (ev3, Return (False, None))
       \<longrightarrow> creates (fst (main w))
            = [\<lparr>ref_RepositoryID = repoId, Name = ''refs/heads/'' @ BranchName opts, Oid = oid\<rparr>])"
proof (intro conjI ballI allI impI)
  fix i
  assume i: "i \<in> set (creates (fst (main w)))"
  have "(\<exists>opts ev2 ev3 oid repoId.
          Parse w = ParseOk opts
        \<and> getMainOid (github w) opts = (ev2, Return (oid, repoId, None))
        \<and> CheckBranchExists (github w) opts = (ev3, Return (False, None))
        \<and> i = \<lparr>ref_RepositoryID = repoId, Name = ''refs/heads/'' @ BranchName opts, Oid = oid\<rparr>)
    \<and> (\<forall>err. MutateCreateRef (github w) i = Inl err
          \<longrightarrow> snd (main w) = Exit 1 \<and> commits (fst (main w)) = [])"
  proof (cases rule: main_cases [of w])
    case stop
    with i show ?thesis by simp
  next
    case (reach opts repo status ev1 changes ev2 oid repoId ev3 b)
    note t = main_traces [OF reach]
    from i t(1) have b: "\<not> b"
      and i': "i = \<lparr>ref_RepositoryID = repoId, Name = ''refs/heads/'' @ BranchName opts, Oid = oid\<rparr>"
      by (simp_all split: if_splits)
    have "snd (main w) = Exit 1 \<and> commits (fst (main w)) = []"
      if "MutateCreateRef (github w) i = Inl err" for err
    proof -
      from that b have "snd (main_revision (github w) opts repo repoId oid b) = Exit 1"
        unfolding i' by (simp add: main_revision_False)
      with t(2,4) show ?thesis by simp
    qed
    then have fatal: "\<forall>err. MutateCreateRef (github w) i = Inl err
          \<longrightarrow> snd (main w) = Exit 1 \<and> commits (fst (main w)) = []"
      by blast
    from b have "b = False" by simp
    note absent = reach(5) [unfolded this]
    have "\<exists>opts ev2 ev3 oid repoId.
          Parse w = ParseOk opts
        \<and> getMainOid (github w) opts = (ev2, Return (oid, repoId, None))
        \<and> CheckBranchExists (github w) opts = (ev3, Return (False, None))
        \<and> i = \<lparr>ref_RepositoryID = repoId, Name = ''refs/heads/'' @ BranchName opts, Oid = oid\<rparr>"
      by (intro exI conjI) (rule reach(1), rule reach(4), rule absent, rule i')
    from this fatal show ?thesis by (rule conjI)
  qed
  then show "\<exists>opts ev2 ev3 oid repoId.
          Parse w = ParseOk opts
        \<and> getMainOid (github w) opts = (ev2, Return (oid, repoId, None))
        \<and> CheckBranchExists (github w) opts = (ev3, Return (False, None))
        \<and> i = \<lparr>ref_RepositoryID = repoId, Name = ''refs/heads/'' @ BranchName opts, Oid = oid\<rparr>"
    and "\<And>err. MutateCreateRef (github w) i = Inl err \<Longrightarrow> snd (main w) = Exit 1"
    and "\<And>err. MutateCreateRef (github w) i = Inl err \<Longrightarrow> commits (fst (main w)) = []"
    by blast+
next
  fix opts repo status ev1 changes ev2 oid repoId ev3
  assume "Parse w = ParseOk opts \<and> openRepository w = Inr (repo, status)
       \<and> addChanges (ReadFile w) status = (ev1, Return changes)
       \<and> getMainOid (github w) opts = (ev2, Return (oid, repoId, None))
       \<and> CheckBranchExists (github w) opts = (ev3, Return (False, None))"
  then have "Parse w = ParseOk opts" and "openRepository w = Inr (repo, status)"
    and "addChanges (ReadFile w) status = (ev1, Return changes)"
    and "getMainOid (github w) opts = (ev2, Return (oid, repoId, None))"
    and "CheckBranchExists (github w) opts = (ev3, Return (False, None))"
    by simp_all
  from main_traces(1) [OF this]
  show "creates (fst (main w))
      = [\<lparr>ref_RepositoryID = repoId, Name = ''refs/heads/'' @ BranchName opts, Oid = oid\<rparr>]"
    by simp
qed

theorem C9_branch_creation_witness:
  "creates (fst (main (ex_world (ex_opts ''org/repo'' False) [(''a.txt'', ex_st Unmodified Modified)]
                         ''2222'' ex_github_denied)))
     = [\<lparr>ref_RepositoryID = ''R_1'', Name = ''refs/heads/feature-x'', Oid = ''2222''\<rparr>]
   \<and> snd (main (ex_world (ex_opts ''org/repo'' False) [(''a.txt'', ex_st Unmodified Modified)]
                   ''2222'' ex_github_denied)) = Exit 1
   \<and> commits (fst (main (ex_world (ex_opts ''org/repo'' False) [(''a.txt'', ex_st Unmodified Modified)]
                          ''2222'' ex_github_denied))) = []"
proof -
  let ?opts = "ex_opts ''org/repo'' False"
  let ?status = "[(''a.txt'', ex_st Unmodified Modified)]"
  let ?w = "ex_world ?opts ?status ''2222'' ex_github_denied"
  let ?i = "\<lparr>ref_RepositoryID = ''R_1'', Name = ''refs/heads/'' @ BranchName ?opts, Oid = ''2222''\<rparr>"
  note c9 = C9_branch_creation [of ?w]
  have path: "Parse ?w = ParseOk ?opts \<and> openRepository ?w = Inr (ex_repo ?status ''2222'', ?status)
       \<and> addChanges (ReadFile ?w) ?status
            = ([Log ''adding a.txt''], Return [\<lparr>Path = ''a.txt'', Contents = ''aGk=''\<rparr>])
       \<and> getMainOid (github ?w) ?opts
            = ([Remote (MainOidQuery ''org'' ''repo'')], Return (''2222'', ''R_1'', None))
       \<and> CheckBranchExists (github ?w) ?opts
            = ([Remote (RefQuery ''org'' ''repo'' ''refs/heads/feature-x''),
                Log ''a branch with the name feature-x was not found''], Return (False, None))"
    by (simp add: ex_world_facts ex_addChanges ex_getMainOid ex_CheckBranchExists)
  from c9 path have created: "creates (fst (main ?w)) = [?i]"
    by blast
  then have "?i \<in> set (creates (fst (main ?w)))"
    by simp
  moreover have "MutateCreateRef (github ?w) ?i = Inl (Err ''Resource not accessible'')"
    by (simp add: ex_world_facts ex_github_denied_def)
  ultimately have "snd (main ?w) = Exit 1 \<and> commits (fst (main ?w)) = []"
    using c9 by blast
  with created show ?thesis
    by (simp add: ex_opts_def)
qed




text \<open>
  C5: in a run in which the existence check returned true, no branch is created and the
  local repository is asked to fetch from \<open>origin\<close>. A failure of that step leaves the
  repository as it was and only adds a log line. Whenever the tracking reference
  \<open>refs/remotes/origin/<BranchName>\<close> then resolves, the commit is sent with the hash of
  that reference as \<open>ExpectedHeadOid\<close>; when it does not, the run logs that and ends with
  exit code 1 before any commit.
\<close>

theorem C5_existing_branch:
  assumes "Parse w = ParseOk opts" and "openRepository w = Inr (repo, status)"
    and "addChanges (ReadFile w) status = (ev1, Return changes)"
    and "getMainOid (github w) opts = (ev2, Return (oid, repoId, None))"
    and "CheckBranchExists (github w) opts = (ev3, Return (True, None))"
    and "fetchRemote repo = (evf, Return (repo', ferr))"
  shows "(\<forall>e. ferr = Some e \<longrightarrow>
            repo' = repo \<and> Log (''unable to fetch remote: '' @ Error_s e) \<in> set (fst (main w)))
       \<and> (\<forall>revision. repo_Reference repo' (''refs/remotes/origin/'' @ BranchName opts) = Inr revision
            \<longrightarrow> map ExpectedHeadOid (commits (fst (main w))) = [ref_Hash revision])
       \<and> (\<forall>err. repo_Reference repo' (''refs/remotes/origin/'' @ BranchName opts) = Inl err
            \<longrightarrow> snd (main w) = Exit 1 \<and> commits (fst (main w)) = []
              \<and> Log (''unable to find HEAD for branch '' @ BranchName opts @ '': '' @ Error_s err)
                   \<in> set (fst (main w)))
       \<and> creates (fst (main w)) = []"
proof -
  let ?R = "main_revision (github w) opts repo repoId oid True"
  let ?name = "''refs/remotes/origin/'' @ BranchName opts"
  note p = assms(1-5)
  note t = main_traces [OF p]
  note R = main_revision_True [OF assms(6), of "github w" opts repoId oid]
  note ev = main_revision_events [OF p]
  have a: "repo' = repo \<and> Log (''unable to fetch remote: '' @ Error_s e) \<in> set (fst (main w))"
    if "ferr = Some e" for e
  proof -
    have "repo' = repo"
    proof (rule fetchRemote_shape [of repo])
      fix evf' repo'' ferr'
      assume "fetchRemote repo = (evf', Return (repo'', ferr'))"
        and "ferr' \<noteq> None \<Longrightarrow> repo'' = repo"
      with assms(6) that show "repo' = repo" by simp
    qed
    moreover from that have "Log (''unable to fetch remote: '' @ Error_s e) \<in> set (fst ?R)"
      unfolding R by simp
    ultimately show ?thesis using ev by blast
  qed
  have b: "map ExpectedHeadOid (commits (fst (main w))) = [ref_Hash revision]"
    if "repo_Reference repo' ?name = Inr revision" for revision
  proof -
    from that have "snd ?R = Return revision" unfolding R by simp
    then show ?thesis unfolding t(2) by (simp add: main_commit_traces(2))
  qed
  have c: "snd (main w) = Exit 1 \<and> commits (fst (main w)) = []
      \<and> Log (''unable to find HEAD for branch '' @ BranchName opts @ '': '' @ Error_s err)
           \<in> set (fst (main w))"
    if "repo_Reference repo' ?name = Inl err" for err
  proof -
    from that have "snd ?R = Exit 1" unfolding R by simp
    then have "snd (main w) = Exit 1" and "commits (fst (main w)) = []"
      unfolding t(2,4) by simp_all
    moreover from that
    have "Log (''unable to find HEAD for branch '' @ BranchName opts @ '': '' @ Error_s err)
        \<in> set (fst ?R)"
      unfolding R by simp
    ultimately show ?thesis using ev by blast
  qed
  from t(1) have d: "creates (fst (main w)) = []" by simp
  from a b c d show ?thesis by blast
qed

theorem C5_existing_branch_witness:
  "Log ''unable to fetch remote: already up-to-date''
      \<in> set (fst (main (ex_world (ex_opts ''org/repo'' False) [(''a.txt'', ex_st Unmodified Modified)]
                          ''1111'' (ex_github ''feature-x'' ''4444''))))
   \<and> map ExpectedHeadOid
        (commits (fst (main (ex_world (ex_opts ''org/repo'' False) [(''a.txt'', ex_st Unmodified Modified)]
                               ''1111'' (ex_github ''feature-x'' ''4444''))))) = [''4444'']
   \<and> snd (main ((ex_world (ex_opts ''org/repo'' False) [(''a.txt'', ex_st Unmodified Modified)]
                     ''1111'' (ex_github ''feature-x'' ''4444''))
                  \<lparr>PlainOpen := Inr (ex_repo_untracked [(''a.txt'', ex_st Unmodified Modified)] ''1111'')\<rparr>))
       = Exit 1"
proof -
  let ?opts = "ex_opts ''org/repo'' False"
  let ?status = "[(''a.txt'', ex_st Unmodified Modified)]"
  let ?gh = "ex_github ''feature-x'' ''4444''"
  let ?w = "ex_world ?opts ?status ''1111'' ?gh"
  let ?repo = "ex_repo ?status ''1111''"
  let ?repo2 = "ex_repo_untracked ?status ''1111''"
  let ?w2 = "?w\<lparr>PlainOpen := Inr ?repo2\<rparr>"
  let ?stale = "Some (Err ''already up-to-date'')"
  have f: "fetchRemote ?repo = ([Fetch ''origin''], Return (?repo, ?stale))"
    by (simp add: fetchRemote_def ex_repo_def)
  have r: "repo_Reference ?repo (''refs/remotes/origin/'' @ BranchName ?opts)
      = Inr \<lparr>ref_Name = ''refs/remotes/origin/feature-x'', ref_Hash = ''4444''\<rparr>"
    by (simp add: ex_repo_def ex_opts_def)
  from C5_existing_branch [of ?w ?opts ?repo ?status "[Log ''adding a.txt'']"
      "[\<lparr>Path = ''a.txt'', Contents = ''aGk=''\<rparr>]" "[Remote (MainOidQuery ''org'' ''repo'')]"
      "''2222''" "''R_1''"
      "[Remote (RefQuery ''org'' ''repo'' ''refs/heads/feature-x''), Log ''branch found: feature-x'']"
      "[Fetch ''origin'']" ?repo ?stale, OF _ _ _ _ _ f]
  have one: "Log (''unable to fetch remote: '' @ Error_s (Err ''already up-to-date'')) \<in> set (fst (main ?w))
      \<and> map ExpectedHeadOid (commits (fst (main ?w))) = [''4444'']"
    using r by (simp add: ex_world_facts ex_addChanges ex_getMainOid ex_CheckBranchExists)
  have f2: "fetchRemote ?repo2 = ([Fetch ''origin''], Return (?repo2, ?stale))"
    by (simp add: fetchRemote_def ex_repo_untracked_def ex_repo_def)
  have r2: "repo_Reference ?repo2 (''refs/remotes/origin/'' @ BranchName ?opts)
      = Inl (Err ''reference not found'')"
    by (simp add: ex_repo_untracked_def)
  have o2: "openRepository ?w2 = Inr (?repo2, ?status)"
    by (simp add: openRepository_def ex_repo_untracked_def ex_repo_def)
  have p2: "Parse ?w2 = ParseOk ?opts" "ReadFile ?w2 = ex_files" "github ?w2 = ?gh"
    by (simp_all add: ex_world_def)
  from C5_existing_branch [of ?w2 ?opts ?repo2 ?status "[Log ''adding a.txt'']"
      "[\<lparr>Path = ''a.txt'', Contents = ''aGk=''\<rparr>]" "[Remote (MainOidQuery ''org'' ''repo'')]"
      "''2222''" "''R_1''"
      "[Remote (RefQuery ''org'' ''repo'' ''refs/heads/feature-x''), Log ''branch found: feature-x'']"
      "[Fetch ''origin'']" ?repo2 ?stale, OF _ o2 _ _ _ f2]
  have two: "snd (main ?w2) = Exit 1"
    using r2 by (simp add: p2 ex_addChanges ex_getMainOid ex_CheckBranchExists)
  from one two show ?thesis by simp
qed

text \<open>
  C1: what the code does on the new-branch path. The branch is created at the object-id
  that \<open>getMainOid\<close> returned, but the commit is sent with the hash of the HEAD of the
  local repository as \<open>ExpectedHeadOid\<close>, whatever that object-id is.
\<close>

theorem C1_expected_head_is_local_HEAD:
  assumes "Parse w = ParseOk opts" and "openRepository w = Inr (repo, status)"
    and "addChanges (ReadFile w) status = (ev1, Return changes)"
    and "getMainOid (github w) opts = (ev2, Return (oid, repoId, None))"
    and "CheckBranchExists (github w) opts = (ev3, Return (False, None))"
    and "MutateCreateRef (github w)
           \<lparr>ref_RepositoryID = repoId, Name = ''refs/heads/'' @ BranchName opts, Oid = oid\<rparr> = Inr mid"
    and "repo_Head repo = Inr head"
  shows "map Oid (creates (fst (main w))) = [oid]
       \<and> map ExpectedHeadOid (commits (fst (main w))) = [ref_Hash head]"
proof -
  note t = main_traces [OF assms(1-5)]
  from assms(6,7) have "snd (main_revision (github w) opts repo repoId oid False) = Return head"
    by (simp add: main_revision_False)
  then show ?thesis
    unfolding t(1,2) by (simp add: main_commit_traces(2))
qed

text \<open>
  The failing run: the local HEAD is at \<open>1111\<close> while the default branch of the remote is
  at \<open>2222\<close>. The branch is created at \<open>2222\<close>, the commit expects \<open>1111\<close>, the service
  refuses it and the run ends with exit code 1.
\<close>

theorem C1_expected_head_is_local_HEAD_witness:
  "map Oid (creates (fst (main (ex_world (ex_opts ''org/repo'' False)
        [(''a.txt'', ex_st Unmodified Modified)] ''1111'' (ex_github [] ''2222''))))) = [''2222'']
   \<and> map ExpectedHeadOid (commits (fst (main (ex_world (ex_opts ''org/repo'' False)
        [(''a.txt'', ex_st Unmodified Modified)] ''1111'' (ex_github [] ''2222''))))) = [''1111'']
   \<and> snd (main (ex_world (ex_opts ''org/repo'' False)
        [(''a.txt'', ex_st Unmodified Modified)] ''1111'' (ex_github [] ''2222''))) = Exit 1"
proof -
  let ?opts = "ex_opts ''org/repo'' False"
  let ?status = "[(''a.txt'', ex_st Unmodified Modified)]"
  let ?gh = "ex_github [] ''2222''"
  let ?w = "ex_world ?opts ?status ''1111'' ?gh"
  let ?repo = "ex_repo ?status ''1111''"
  have c: "MutateCreateRef (github ?w)
      \<lparr>ref_RepositoryID = ''R_1'', Name = ''refs/heads/'' @ BranchName ?opts, Oid = ''2222''\<rparr> = Inr []"
    by (simp add: ex_world_facts ex_github_def)
  have h: "repo_Head ?repo = Inr \<lparr>ref_Name = ''refs/heads/main'', ref_Hash = ''1111''\<rparr>"
    by (simp add: ex_repo_def)
  from C1_expected_head_is_local_HEAD [of ?w ?opts ?repo ?status "[Log ''adding a.txt'']"
      "[\<lparr>Path = ''a.txt'', Contents = ''aGk=''\<rparr>]" "[Remote (MainOidQuery ''org'' ''repo'')]"
      "''2222''" "''R_1''"
      "[Remote (RefQuery ''org'' ''repo'' ''refs/heads/feature-x''),
        Log ''a branch with the name feature-x was not found'']"
      "[]" "\<lparr>ref_Name = ''refs/heads/main'', ref_Hash = ''1111''\<rparr>", OF _ _ _ _ _ c h]
  have "map Oid (creates (fst (main ?w))) = [''2222'']
      \<and> map ExpectedHeadOid (commits (fst (main ?w))) = [''1111'']"
    by (simp add: ex_world_facts ex_addChanges ex_getMainOid ex_CheckBranchExists)
  moreover have "snd (main ?w) = Exit 1"
    by (simp add: ex_new_branch_run(3))
  ultimately show ?thesis by simp
qed

text \<open>
  C10: the pull-request option has no influence on the commit. \<open>DoCommit\<close> does the same
  with either value of the option, and two runs that differ only in it send the same
  commit mutations.
\<close>

theorem C10_pull_request_flag_does_not_reach_commit:
  "DoCommit client changes (opts\<lparr>PullRequest := p\<rparr>) revision = DoCommit client changes opts revision
   \<and> commits (fst (main (w\<lparr>Parse := ParseOk (opts\<lparr>PullRequest := True\<rparr>)\<rparr>)))
       = commits (fst (main (w\<lparr>Parse := ParseOk (opts\<lparr>PullRequest := False\<rparr>)\<rparr>)))"
proof -
  let ?t = "opts\<lparr>PullRequest := True\<rparr>"
  let ?f = "opts\<lparr>PullRequest := False\<rparr>"
  let ?wt = "w\<lparr>Parse := ParseOk ?t\<rparr>"
  let ?wf = "w\<lparr>Parse := ParseOk ?f\<rparr>"
  have tf: "?wt\<lparr>Parse := ParseOk (?t\<lparr>PullRequest := False\<rparr>)\<rparr> = ?wf"
    and ft: "?wf\<lparr>Parse := ParseOk (?f\<lparr>PullRequest := True\<rparr>)\<rparr> = ?wt"
    by simp_all
  have "commits (fst (main ?wt)) = commits (fst (main ?wf))"
  proof (cases rule: main_cases [of ?wt])
    case (reach opts' repo status ev1 changes ev2 oid repoId ev3 b)
    from reach(1) have "opts' = ?t" by simp
    from commits_main_flag [OF reach [unfolded this], of False] show ?thesis
      unfolding tf by simp
  next
    case stop
    note stop_t = this
    show ?thesis
    proof (cases rule: main_cases [of ?wf])
      case (reach opts' repo status ev1 changes ev2 oid repoId ev3 b)
      from reach(1) have "opts' = ?f" by simp
      from commits_main_flag [OF reach [unfolded this], of True] show ?thesis
        unfolding ft by simp
    next
      case stop
      with stop_t show ?thesis by simp
    qed
  qed
  with flag_irrelevant(4) show ?thesis
    by (rule conjI)
qed

theorem C10_pull_request_flag_does_not_reach_commit_witness:
  "commits (fst (main (ex_world (ex_opts ''org/repo'' True) [(''a.txt'', ex_st Unmodified Modified)]
                         ''2222'' (ex_github [] ''2222''))))
     = commits (fst (main (ex_world (ex_opts ''org/repo'' False) [(''a.txt'', ex_st Unmodified Modified)]
                             ''2222'' (ex_github [] ''2222''))))"
  using C10_pull_request_flag_does_not_reach_commit [where opts = "ex_opts ''org/repo'' False"
      and w = "ex_world (ex_opts ''org/repo'' False) [(''a.txt'', ex_st Unmodified Modified)]
         ''2222'' (ex_github [] ''2222'')"]
  by (simp add: ex_world_def ex_opts_def)

end
